theory Spec2Isabelle
  imports Main "HOL-Library.Word"
begin

section \<open>Host-language values and strings\<close>

text \<open>
  The plugin is TypeScript. Strings are modelled as \<^typ>\<open>string\<close>; every string the
  address computation touches is ASCII (hexadecimal text), and a text that is hashed is
  taken in its UTF-8 encoding, one \<^typ>\<open>char\<close> per byte.
\<close>

type_synonym byte = "8 word"

text \<open>The \<^verbatim>\<open>any[]\<close> and \<^verbatim>\<open>unknown[]\<close> argument lists.\<close>

datatype val = VString string | VNumber int | VBool bool | VArray "val list"

text \<open>
  \<^verbatim>\<open>salt: string | number\<close>. A number is modelled where it is an integer from
  \<open>- 2 ^ 53\<close> to \<open>2 ^ 53 - 1\<close>, the value of a signed word of 54 bits: every such
  integer is a number of the language exactly, and its \<^verbatim>\<open>toString()\<close> is its decimal
  numeral. Numbers with a fraction or beyond that range, which print otherwise, are not
  values of the type.
\<close>

datatype salt = SaltString string | SaltNumber "54 word"

text \<open>
  Everything that can be thrown: the plugin's own \<^verbatim>\<open>BeaconProxyUnsupportedError\<close>,
  the error of ethers' \<^verbatim>\<open>arrayify\<close> on a string that is not even-length hexadecimal
  with the prefix 0x, and a rejection by a collaborator (with its message).
\<close>

datatype error = BeaconProxyUnsupportedError | InvalidArrayify | Rejected string

fun digits :: "nat \<Rightarrow> string" where
  "digits n = (if n < 10 then [char_of (48 + n)] else digits (n div 10) @ [char_of (48 + n mod 10)])"

definition number_toString :: "54 word \<Rightarrow> string" where
  "number_toString w =
     (let n = sint w in if n < 0 then CHR ''-'' # digits (nat (- n)) else digits (nat n))"

fun salt_toString :: "salt \<Rightarrow> string" where
  "salt_toString (SaltString s) = s"
| "salt_toString (SaltNumber n) = number_toString n"

definition toUtf8Bytes :: "string \<Rightarrow> byte list" where
  "toUtf8Bytes s = map of_char s"

text \<open>\<^verbatim>\<open>x.replace(/0x/, '')\<close>: the first occurrence of 0x, wherever it stands, is removed.\<close>

fun replace_0x :: "string \<Rightarrow> string" where
  "replace_0x (c # d # cs) =
     (if c = CHR ''0'' \<and> d = CHR ''x'' then cs else c # replace_0x (d # cs))"
| "replace_0x cs = cs"

text \<open>\<^verbatim>\<open>s.slice(-n)\<close>: the last \<open>n\<close> characters, the whole string when it is shorter.\<close>

definition slice_last :: "nat \<Rightarrow> string \<Rightarrow> string" where
  "slice_last n s = drop (length s - n) s"

definition lower_char :: "char \<Rightarrow> char" where
  "lower_char c = (let n = (of_char c :: nat) in if 65 \<le> n \<and> n \<le> 90 then char_of (n + 32) else c)"

definition toLowerCase :: "string \<Rightarrow> string" where
  "toLowerCase s = map lower_char s"

section \<open>The ethers utilities the plugin calls\<close>

text \<open>
  \<^verbatim>\<open>ethers.utils\<close> is a library outside the repository. Its hexadecimal conventions are
  written out, since the plugin manipulates their text: \<^verbatim>\<open>hexlify\<close> prints bytes as
  0x and two lower-case digits per byte, \<^verbatim>\<open>arrayify\<close> reads such a text (digits of
  either case) and throws on anything else.
\<close>

definition hexDigit :: "nat \<Rightarrow> char" where
  "hexDigit n = ''0123456789abcdef'' ! n"

definition hexByte :: "byte \<Rightarrow> string" where
  "hexByte b = [hexDigit (unat b div 16), hexDigit (unat b mod 16)]"

definition hexDigits :: "byte list \<Rightarrow> string" where
  "hexDigits bs = concat (map hexByte bs)"

definition hexlify :: "byte list \<Rightarrow> string" where
  "hexlify bs = ''0x'' @ hexDigits bs"

definition hexValue :: "char \<Rightarrow> nat option" where
  "hexValue c =
     (let n = (of_char c :: nat) in
      if 48 \<le> n \<and> n \<le> 57 then Some (n - 48)
      else if 97 \<le> n \<and> n \<le> 102 then Some (n - 87)
      else if 65 \<le> n \<and> n \<le> 70 then Some (n - 55)
      else None)"

fun hexBytes :: "string \<Rightarrow> byte list option" where
  "hexBytes [] = Some []"
| "hexBytes [c] = None"
| "hexBytes (c # d # cs) =
     (case (hexValue c, hexValue d, hexBytes cs) of
        (Some h, Some l, Some bs) \<Rightarrow> Some (of_nat (16 * h + l) # bs)
      | _ \<Rightarrow> None)"

definition arrayify :: "string \<Rightarrow> error + byte list" where
  "arrayify s =
     (case s of
        c # d # cs \<Rightarrow>
          (if c = CHR ''0'' \<and> d = CHR ''x''
           then (case hexBytes cs of None \<Rightarrow> Inl InvalidArrayify | Some bs \<Rightarrow> Inr bs)
           else Inl InvalidArrayify)
      | _ \<Rightarrow> Inl InvalidArrayify)"

section \<open>Data of the deployment\<close>

text \<open>The ethers \<^verbatim>\<open>Contract\<close> of the create2 factory; the plugin reads its address.\<close>

record contract =
  c_address :: string

text \<open>The \<^verbatim>\<open>TransactionResponse\<close> of a submitted transaction.\<close>

record tx =
  hash :: string

text \<open>\<^verbatim>\<open>Required<Deployment & DeployTransaction>\<close>.\<close>

record deployment =
  address :: string
  txHash :: string
  deployTransaction :: tx

datatype kind = Transparent | Uups | Beacon

text \<open>\<^verbatim>\<open>Object.assign({ kind }, deployment)\<close>.\<close>

record proxyDeployment = deployment +
  proxyKind :: kind

text \<open>
  The ethers \<^verbatim>\<open>ContractFactory\<close>: its creation bytecode, and its interface and signer
  as opaque names.
\<close>

record contractFactory =
  bytecode :: string
  interface :: string
  signer :: string

datatype initializer = InitializerName string | InitializerFalse

text \<open>
  \<^verbatim>\<open>DeployProxyOptions\<close>, every field optional: \<open>None\<close> is \<^verbatim>\<open>undefined\<close>.
\<close>

record deployProxyOptions =
  kind :: "kind option"
  initializer :: "initializer option"
  unsafeAllow :: "string list option"
  deployFactory :: "contract option"
  deployFactorySalt :: "salt option"

text \<open>The contract \<^verbatim>\<open>ImplFactory.attach(address)\<close> returns, with its deployTransaction set.\<close>

record proxyContract =
  inst_address :: string
  inst_interface :: string
  inst_signer :: string
  inst_deployTransaction :: tx

text \<open>
  What a call leaves behind, in order: each awaited call to a collaborator that resolved,
  and each warning logged.
  \<^item> \<open>ManifestForNetwork\<close>: \<^verbatim>\<open>Manifest.forNetwork(provider)\<close> resolved;
  \<^item> \<open>DeployProxyImpl\<close>: \<^verbatim>\<open>deployProxyImpl(hre, ImplFactory, opts)\<close> resolved with
    \<^verbatim>\<open>{ impl, kind }\<close>;
  \<^item> \<open>FactoryDeploy\<close>: \<^verbatim>\<open>factory.deploy(bytecode, saltHex)\<close> resolved with the
    submitted transaction;
  \<^item> \<open>TxWait\<close>: \<^verbatim>\<open>deployTransaction.wait()\<close> resolved: the transaction is confirmed;
  \<^item> \<open>LogWarning\<close>: \<^verbatim>\<open>logWarning(title, lines)\<close>;
  \<^item> \<open>FetchOrDeployAdmin\<close>: \<^verbatim>\<open>fetchOrDeployAdmin(provider, () => deploy(AdminFactory))\<close>
    resolved with the admin's address;
  \<^item> \<open>Deploy\<close>: \<^verbatim>\<open>deploy(ProxyFactory, ...args)\<close> resolved;
  \<^item> \<open>AddProxy\<close>: \<^verbatim>\<open>manifest.addProxy(proxyDeployment)\<close> resolved.
\<close>

datatype event =
    ManifestForNetwork
  | DeployProxyImpl contractFactory deployProxyOptions string kind
  | FactoryDeploy contract string string tx
  | TxWait tx
  | LogWarning string "string list"
  | FetchOrDeployAdmin contractFactory string
  | Deploy contractFactory "val list" deployment
  | AddProxy proxyDeployment

text \<open>
  The collaborators are parameters: the hash function behind \<^verbatim>\<open>ethers.utils.keccak256\<close>
  and \<^verbatim>\<open>ethers.utils.id\<close>, the ABI coder, the chain, the manifest of
  \<^verbatim>\<open>@openzeppelin/upgrades-core\<close> and the helpers of \<^verbatim>\<open>./utils\<close>. A call that
  is awaited may reject, and what it answers may depend on everything that happened
  before: it is given the events so far.
\<close>

record env =
  keccak_256 :: "byte list \<Rightarrow> byte list"
  abi_encode :: "string list \<Rightarrow> val list \<Rightarrow> error + byte list"
  manifest_forNetwork :: "event list \<Rightarrow> error + unit"
  manifest_getAdmin :: "event list \<Rightarrow> error + deployment option"
  manifest_addProxy :: "event list \<Rightarrow> proxyDeployment \<Rightarrow> error + unit"
  factory_deploy :: "event list \<Rightarrow> contract \<Rightarrow> string \<Rightarrow> string \<Rightarrow> error + tx"
  tx_wait :: "event list \<Rightarrow> tx \<Rightarrow> error + unit"
  deployProxyImpl :: "event list \<Rightarrow> contractFactory \<Rightarrow> deployProxyOptions \<Rightarrow> error + string \<times> kind"
  getInitializerData :: "string \<Rightarrow> val list \<Rightarrow> initializer option \<Rightarrow> error + string"
  getProxyFactory :: "string \<Rightarrow> error + contractFactory"
  getTransparentUpgradeableProxyFactory :: "string \<Rightarrow> error + contractFactory"
  getProxyAdminFactory :: "string \<Rightarrow> error + contractFactory"
  fetchOrDeployAdmin :: "event list \<Rightarrow> contractFactory \<Rightarrow> error + string"
  deploy :: "event list \<Rightarrow> contractFactory \<Rightarrow> val list \<Rightarrow> error + deployment"

section \<open>create2-deployer.ts\<close>

text \<open>\<^verbatim>\<open>ethers.utils.keccak256(data)\<close>: hexlify of the hash of arrayify of \<open>data\<close>.\<close>

definition keccak256 :: "env \<Rightarrow> string \<Rightarrow> error + string" where
  "keccak256 env data =
     (case arrayify data of Inl e \<Rightarrow> Inl e | Inr bs \<Rightarrow> Inr (hexlify (keccak_256 env bs)))"

text \<open>\<^verbatim>\<open>ethers.utils.id(text)\<close>: the hash of the UTF-8 bytes of \<open>text\<close>.\<close>

definition ethers_id :: "env \<Rightarrow> string \<Rightarrow> string" where
  "ethers_id env text = hexlify (keccak_256 env (toUtf8Bytes text))"

definition encodeParams :: "env \<Rightarrow> string list \<Rightarrow> val list \<Rightarrow> error + string" where
  "encodeParams env dataTypes data =
     (case abi_encode env dataTypes data of Inl e \<Rightarrow> Inl e | Inr bs \<Rightarrow> Inr (hexlify bs))"

definition buildBytecode :: "env \<Rightarrow> string list \<Rightarrow> val list \<Rightarrow> string \<Rightarrow> error + string" where
  "buildBytecode env constructorTypes constructorArgs contractBytecode =
     (case encodeParams env constructorTypes constructorArgs of
        Inl e \<Rightarrow> Inl e
      | Inr encoded \<Rightarrow> Inr (contractBytecode @ drop 2 encoded))"

definition buildCreate2Address :: "env \<Rightarrow> string \<Rightarrow> string \<Rightarrow> string \<Rightarrow> error + string" where
  "buildCreate2Address env factoryAddress saltHex byteCode =
     (case keccak256 env byteCode of
        Inl e \<Rightarrow> Inl e
      | Inr codeHash \<Rightarrow>
          (case keccak256 env
                  (''0x'' @ concat (map replace_0x [''ff'', factoryAddress, saltHex, codeHash])) of
             Inl e \<Rightarrow> Inl e
           | Inr h \<Rightarrow> Inr (toLowerCase (''0x'' @ slice_last 40 h))))"

definition saltToHex :: "env \<Rightarrow> salt \<Rightarrow> string" where
  "saltToHex env salt = ethers_id env (salt_toString salt)"

text \<open>A default parameter \<^verbatim>\<open>p = []\<close>: the default stands in for \<^verbatim>\<open>undefined\<close>.\<close>

definition orDefault :: "'a \<Rightarrow> 'a option \<Rightarrow> 'a" where
  "orDefault d x = (case x of None \<Rightarrow> d | Some v \<Rightarrow> v)"

definition getCreate2Address ::
  "env \<Rightarrow> string \<Rightarrow> salt \<Rightarrow> string \<Rightarrow> string list option \<Rightarrow> val list option \<Rightarrow> error + string" where
  "getCreate2Address env factoryAddress salt contractBytecode constructorTypes constructorArgs =
     (let saltHex = saltToHex env salt in
      case buildBytecode env (orDefault [] constructorTypes) (orDefault [] constructorArgs)
             contractBytecode of
        Inl e \<Rightarrow> Inl e
      | Inr byteCode \<Rightarrow> buildCreate2Address env factoryAddress saltHex byteCode)"

text \<open>
  An asynchronous step: from the events so far to a result or an error, and the events
  after it.
\<close>

type_synonym 'a run = "event list \<Rightarrow> (error + 'a) \<times> event list"

definition returnR :: "'a \<Rightarrow> 'a run" where
  "returnR x = (\<lambda>evs. (Inr x, evs))"

definition throwR :: "error \<Rightarrow> 'a run" where
  "throwR e = (\<lambda>evs. (Inl e, evs))"

definition bindR :: "'a run \<Rightarrow> ('a \<Rightarrow> 'b run) \<Rightarrow> 'b run" where
  "bindR m f = (\<lambda>evs. case m evs of (Inl e, evs') \<Rightarrow> (Inl e, evs') | (Inr x, evs') \<Rightarrow> f x evs')"

text \<open>A synchronous computation that may throw.\<close>

definition liftR :: "error + 'a \<Rightarrow> 'a run" where
  "liftR r = (\<lambda>evs. (r, evs))"

text \<open>
  \<^verbatim>\<open>await call\<close>: the collaborator answers from the events so far; a rejection is
  thrown, a result is recorded as an event.
\<close>

definition awaitR :: "(event list \<Rightarrow> error + 'a) \<Rightarrow> ('a \<Rightarrow> event) \<Rightarrow> 'a run" where
  "awaitR call ev = (\<lambda>evs. case call evs of Inl e \<Rightarrow> (Inl e, evs) | Inr x \<Rightarrow> (Inr x, evs @ [ev x]))"

definition logWarning :: "string \<Rightarrow> string list \<Rightarrow> unit run" where
  "logWarning title lines = (\<lambda>evs. (Inr (), evs @ [LogWarning title lines]))"

text \<open>
  \<^verbatim>\<open>deployContract\<close>: the salt's hash, the init code, the address computed locally, then
  \<^verbatim>\<open>factory.deploy(bytecode, saltHex)\<close> awaited; the transaction is returned as submitted.
\<close>

definition deployContract ::
  "env \<Rightarrow> salt \<Rightarrow> contract \<Rightarrow> string \<Rightarrow> string list option \<Rightarrow> val list option \<Rightarrow> deployment run" where
  "deployContract env salt factory contractBytecode constructorTypes constructorArgs =
     (let types = orDefault [] constructorTypes;
          cargs = orDefault [] constructorArgs;
          saltHex = saltToHex env salt in
      bindR (liftR (buildBytecode env types cargs contractBytecode)) (\<lambda>byteCode.
      bindR (liftR (getCreate2Address env (c_address factory) salt contractBytecode
                      (Some types) (Some cargs))) (\<lambda>addr.
      bindR (awaitR (\<lambda>evs. factory_deploy env evs factory byteCode saltHex)
                    (FactoryDeploy factory byteCode saltHex)) (\<lambda>t.
      returnR \<lparr>address = addr, txHash = hash t, deployTransaction = t\<rparr>))))"

section \<open>deploy-proxy.ts\<close>

text \<open>
  The second argument of \<^verbatim>\<open>deployProxy\<close> is either the array of initializer arguments
  or the options; both parameters may be left out.
\<close>

datatype secondArg = ArgsArray "val list" | ArgsOptions deployProxyOptions

text \<open>The empty options object \<^verbatim>\<open>{}\<close>.\<close>

definition noOptions :: deployProxyOptions where
  "noOptions = \<lparr>kind = None, initializer = None, unsafeAllow = None,
                 deployFactory = None, deployFactorySalt = None\<rparr>"

text \<open>
  The defaults \<^verbatim>\<open>args = []\<close>, \<^verbatim>\<open>opts = {}\<close>, and then
  \<^verbatim>\<open>if (!Array.isArray(args)) { opts = args; args = []; }\<close>.
\<close>

definition normalizeArgs ::
  "secondArg option \<Rightarrow> deployProxyOptions option \<Rightarrow> val list \<times> deployProxyOptions" where
  "normalizeArgs args opts =
     (case orDefault (ArgsArray []) args of
        ArgsArray xs \<Rightarrow> (xs, orDefault noOptions opts)
      | ArgsOptions x \<Rightarrow> ([], x))"

text \<open>An awaited read: it may reject, and leaves no event.\<close>

definition askR :: "(event list \<Rightarrow> error + 'a) \<Rightarrow> 'a run" where
  "askR call = (\<lambda>evs. (call evs, evs))"

text \<open>
  The implementation and the kind (the branch on \<^verbatim>\<open>opts.deployFactory\<close> and
  \<^verbatim>\<open>opts.deployFactorySalt\<close>): with both, \<^verbatim>\<open>kind = opts.kind ?? 'uups'\<close>, the address
  is computed, the implementation is deployed through the factory with no constructor
  types and arguments, and its transaction is waited for; otherwise both come from
  \<^verbatim>\<open>deployProxyImpl\<close>.
\<close>

definition resolveImpl :: "env \<Rightarrow> contractFactory \<Rightarrow> deployProxyOptions \<Rightarrow> (string \<times> kind) run" where
  "resolveImpl env ImplFactory opts =
     (case (deployFactory opts, deployFactorySalt opts) of
        (Some factory, Some salt) \<Rightarrow>
          (let k = orDefault Uups (kind opts);
               code = bytecode ImplFactory in
           bindR (liftR (getCreate2Address env (c_address factory) salt code (Some []) (Some [])))
             (\<lambda>contractAddress.
           bindR (deployContract env salt factory code (Some []) (Some []))
             (\<lambda>contractDeployment.
           bindR (awaitR (\<lambda>evs. tx_wait env evs (deployTransaction contractDeployment))
                         (\<lambda>_. TxWait (deployTransaction contractDeployment)))
             (\<lambda>_.
           returnR (contractAddress, k)))))
      | _ \<Rightarrow>
          bindR (awaitR (\<lambda>evs. deployProxyImpl env evs ImplFactory opts)
                        (\<lambda>(i, k). DeployProxyImpl ImplFactory opts i k))
            returnR)"

text \<open>
  \<^verbatim>\<open>if (kind === 'uups') { if (await manifest.getAdmin()) { logWarning(...) } }\<close>
\<close>

definition adminWarning :: "env \<Rightarrow> kind \<Rightarrow> unit run" where
  "adminWarning env k =
     (if k = Uups
      then bindR (askR (manifest_getAdmin env)) (\<lambda>admin.
             if admin \<noteq> None
             then logWarning ''A proxy admin was previously deployed on this network''
                    [''This is not natively used with the current kind of proxy ('uups').'',
                     ''Changes to the admin will have no effect on this new proxy.'']
             else returnR ())
      else returnR ())"

text \<open>
  The \<^verbatim>\<open>switch (kind)\<close>: the proxy's factory, its constructor arguments and their ABI
  types.
\<close>

definition proxyFactoryArgs ::
  "env \<Rightarrow> contractFactory \<Rightarrow> kind \<Rightarrow> string \<Rightarrow> string
     \<Rightarrow> (contractFactory \<times> val list \<times> string list) run" where
  "proxyFactoryArgs env ImplFactory k impl data =
     (case k of
        Beacon \<Rightarrow> throwR BeaconProxyUnsupportedError
      | Uups \<Rightarrow>
          bindR (liftR (getProxyFactory env (signer ImplFactory))) (\<lambda>ProxyFactory.
          returnR (ProxyFactory, [VString impl, VString data], [''address'', ''bytes'']))
      | Transparent \<Rightarrow>
          bindR (liftR (getProxyAdminFactory env (signer ImplFactory))) (\<lambda>AdminFactory.
          bindR (awaitR (\<lambda>evs. fetchOrDeployAdmin env evs AdminFactory)
                        (FetchOrDeployAdmin AdminFactory)) (\<lambda>adminAddress.
          bindR (liftR (getTransparentUpgradeableProxyFactory env (signer ImplFactory)))
            (\<lambda>ProxyFactory.
          returnR (ProxyFactory, [VString impl, VString adminAddress, VString data],
                   [''address'', ''address'', ''bytes''])))))"

definition withKind :: "kind \<Rightarrow> deployment \<Rightarrow> proxyDeployment" where
  "withKind k d = \<lparr>address = address d, txHash = txHash d,
                    deployTransaction = deployTransaction d, proxyKind = k\<rparr>"

text \<open>
  The proxy's creation: \<^verbatim>\<open>deploy(ProxyFactory, ...proxyFactoryArgs)\<close> when either
  deterministic option is undefined, \<^verbatim>\<open>deployContract\<close> with the proxy's bytecode, the
  types and the arguments otherwise.
\<close>

definition submitProxy ::
  "env \<Rightarrow> deployProxyOptions \<Rightarrow> kind \<Rightarrow> contractFactory \<Rightarrow> val list \<Rightarrow> string list
     \<Rightarrow> proxyDeployment run" where
  "submitProxy env opts k ProxyFactory proxyArgs proxyArgTypes =
     (case (deployFactory opts, deployFactorySalt opts) of
        (Some factory, Some salt) \<Rightarrow>
          bindR (deployContract env salt factory (bytecode ProxyFactory)
                   (Some proxyArgTypes) (Some proxyArgs)) (\<lambda>d.
          returnR (withKind k d))
      | _ \<Rightarrow>
          bindR (awaitR (\<lambda>evs. deploy env evs ProxyFactory proxyArgs)
                        (Deploy ProxyFactory proxyArgs)) (\<lambda>d.
          returnR (withKind k d)))"

definition attach :: "contractFactory \<Rightarrow> proxyDeployment \<Rightarrow> proxyContract" where
  "attach ImplFactory proxyDeployment =
     \<lparr>inst_address = address proxyDeployment, inst_interface = interface ImplFactory,
      inst_signer = signer ImplFactory,
      inst_deployTransaction = deployTransaction proxyDeployment\<rparr>"

definition deployProxy ::
  "env \<Rightarrow> contractFactory \<Rightarrow> secondArg option \<Rightarrow> deployProxyOptions option \<Rightarrow> proxyContract run" where
  "deployProxy env ImplFactory args0 opts0 =
     (case normalizeArgs args0 opts0 of
        (args, opts) \<Rightarrow>
          bindR (awaitR (manifest_forNetwork env) (\<lambda>_. ManifestForNetwork)) (\<lambda>_.
          bindR (resolveImpl env ImplFactory opts) (\<lambda>(impl, k).
          bindR (liftR (getInitializerData env (interface ImplFactory) args (initializer opts)))
            (\<lambda>data.
          bindR (adminWarning env k) (\<lambda>_.
          bindR (proxyFactoryArgs env ImplFactory k impl data)
            (\<lambda>(ProxyFactory, proxyArgs, proxyArgTypes).
          bindR (submitProxy env opts k ProxyFactory proxyArgs proxyArgTypes)
            (\<lambda>proxyDeployment.
          bindR (awaitR (\<lambda>evs. manifest_addProxy env evs proxyDeployment)
                        (\<lambda>_. AddProxy proxyDeployment)) (\<lambda>_.
          returnR (attach ImplFactory proxyDeployment)))))))))"

section \<open>The address in the words of the specification\<close>

text \<open>The low-order \<open>n\<close> bytes of a byte string.\<close>

definition low_order :: "nat \<Rightarrow> byte list \<Rightarrow> byte list" where
  "low_order n bs = drop (length bs - n) bs"

text \<open>
  The low-order 20 bytes of the hash of: the byte 0xff, the factory's address, the salt's
  hash, and the hash of the init code.
\<close>

definition create2_address :: "env \<Rightarrow> byte list \<Rightarrow> byte list \<Rightarrow> byte list \<Rightarrow> byte list" where
  "create2_address env factory saltHash initCode =
     low_order 20 (keccak_256 env (0xff # factory @ saltHash @ keccak_256 env initCode))"

section \<open>Reading the events\<close>

fun isAddProxy :: "event \<Rightarrow> bool" where
  "isAddProxy (AddProxy p) = True"
| "isAddProxy e = False"

fun isLogWarning :: "event \<Rightarrow> bool" where
  "isLogWarning (LogWarning t ls) = True"
| "isLogWarning e = False"

fun isFetchOrDeployAdmin :: "event \<Rightarrow> bool" where
  "isFetchOrDeployAdmin (FetchOrDeployAdmin f a) = True"
| "isFetchOrDeployAdmin e = False"

text \<open>The events the resolution of the implementation can leave.\<close>

fun implEvent :: "event \<Rightarrow> bool" where
  "implEvent (FactoryDeploy f c s t) = True"
| "implEvent (TxWait t) = True"
| "implEvent (DeployProxyImpl f opts i k) = True"
| "implEvent e = False"

text \<open>
  The event is the submission of the proxy that \<open>p\<close> records: the factory call that
  answered \<open>p\<close>'s transaction, or the \<^verbatim>\<open>deploy\<close> that answered \<open>p\<close>'s deployment.
\<close>

fun submits :: "event \<Rightarrow> proxyDeployment \<Rightarrow> bool" where
  "submits (FactoryDeploy f c s t) p = (deployTransaction p = t \<and> txHash p = hash t)"
| "submits (Deploy f xs d) p = (p = withKind (proxyKind p) d)"
| "submits e p = False"

text \<open>The warning about the proxy admin, as it is logged.\<close>

definition adminWarningLogged :: event where
  "adminWarningLogged =
     LogWarning ''A proxy admin was previously deployed on this network''
       [''This is not natively used with the current kind of proxy ('uups').'',
        ''Changes to the admin will have no effect on this new proxy.'']"

section \<open>The kind where no deterministic deployment is asked for\<close>

text \<open>
  Modelled from the spec: \<^verbatim>\<open>deployProxyImpl\<close> of \<^verbatim>\<open>./utils\<close>, which is not among the
  sources. The specification: the collaborator resolves or deploys the implementation and
  produces its address and the kind, and the option \<^verbatim>\<open>kind\<close> is transparent, uups or
  beacon, transparent by default. How the address is resolved stays a parameter.
\<close>

definition deployProxyImpl_spec ::
  "(event list \<Rightarrow> contractFactory \<Rightarrow> deployProxyOptions \<Rightarrow> error + string)
     \<Rightarrow> event list \<Rightarrow> contractFactory \<Rightarrow> deployProxyOptions \<Rightarrow> error + string \<times> kind" where
  "deployProxyImpl_spec resolve evs ImplFactory opts =
     (case resolve evs ImplFactory opts of
        Inl e \<Rightarrow> Inl e
      | Inr impl \<Rightarrow> Inr (impl, orDefault Transparent (kind opts)))"

section \<open>An example environment\<close>

text \<open>
  A chain and a manifest on which every call succeeds, used to run the definitions. The
  hash is a 32-byte checksum in place of Keccak-256 (the theorems hold for every 32-byte
  hash), the coder encodes the two argument lists the plugin builds, \<^verbatim>\<open>(address, bytes)\<close>
  and \<^verbatim>\<open>(address, address, bytes)\<close>, and every submitted transaction gets a hash of
  its own.
\<close>

definition example_hash :: "byte list \<Rightarrow> byte list" where
  "example_hash bs = replicate 32 (foldr (+) bs (of_nat (length bs)))"

fun be_bytes :: "nat \<Rightarrow> nat \<Rightarrow> byte list" where
  "be_bytes 0 n = []"
| "be_bytes (Suc k) n = be_bytes k (n div 256) @ [of_nat n]"

definition pad_right :: "byte list \<Rightarrow> byte list" where
  "pad_right bs = bs @ replicate ((32 - length bs mod 32) mod 32) 0"

definition example_abi_encode :: "string list \<Rightarrow> val list \<Rightarrow> error + byte list" where
  "example_abi_encode ts vs =
     (if ts = [] \<and> vs = [] then Inr []
      else case vs of
        [VString i, VString d] \<Rightarrow>
          (case (arrayify i, arrayify d) of
             (Inr a, Inr b) \<Rightarrow>
               if ts = [''address'', ''bytes'']
               then Inr (replicate (32 - length a) 0 @ a @ be_bytes 32 64
                         @ be_bytes 32 (length b) @ pad_right b)
               else Inl (Rejected ''unsupported types'')
           | _ \<Rightarrow> Inl (Rejected ''invalid value''))
      | [VString i, VString m, VString d] \<Rightarrow>
          (case (arrayify i, arrayify m, arrayify d) of
             (Inr a, Inr c, Inr b) \<Rightarrow>
               if ts = [''address'', ''address'', ''bytes'']
               then Inr (replicate (32 - length a) 0 @ a @ replicate (32 - length c) 0 @ c
                         @ be_bytes 32 96 @ be_bytes 32 (length b) @ pad_right b)
               else Inl (Rejected ''unsupported types'')
           | _ \<Rightarrow> Inl (Rejected ''invalid value''))
      | _ \<Rightarrow> Inl (Rejected ''unsupported types''))"

definition example_env :: env where
  "example_env =
     \<lparr>keccak_256 = example_hash,
      abi_encode = example_abi_encode,
      manifest_forNetwork = (\<lambda>evs. Inr ()),
      manifest_getAdmin = (\<lambda>evs. Inr None),
      manifest_addProxy = (\<lambda>evs p. Inr ()),
      factory_deploy = (\<lambda>evs f code saltHex. Inr \<lparr>hash = ''0xtx'' @ digits (length evs)\<rparr>),
      tx_wait = (\<lambda>evs t. Inr ()),
      deployProxyImpl = (\<lambda>evs f opts.
         Inr (''0x1111111111111111111111111111111111111111'', orDefault Transparent (kind opts))),
      getInitializerData = (\<lambda>i args init. Inr ''0x8129fc1c''),
      getProxyFactory =
        (\<lambda>s. Inr \<lparr>bytecode = ''0x6080'', interface = ''ERC1967Proxy'', signer = s\<rparr>),
      getTransparentUpgradeableProxyFactory =
        (\<lambda>s. Inr \<lparr>bytecode = ''0x6081'', interface = ''TransparentUpgradeableProxy'', signer = s\<rparr>),
      getProxyAdminFactory =
        (\<lambda>s. Inr \<lparr>bytecode = ''0x6082'', interface = ''ProxyAdmin'', signer = s\<rparr>),
      fetchOrDeployAdmin = (\<lambda>evs f. Inr ''0x2222222222222222222222222222222222222222''),
      deploy = (\<lambda>evs f args.
         Inr \<lparr>address = ''0x3333333333333333333333333333333333333333'',
              txHash = ''0xtx'' @ digits (length evs),
              deployTransaction = \<lparr>hash = ''0xtx'' @ digits (length evs)\<rparr>\<rparr>)\<rparr>"

definition example_factory :: contract where
  "example_factory = \<lparr>c_address = ''0xFFfFfFffFFfffFFfFFfFFFFFffFFFffffFfFFFfF''\<rparr>"

definition example_impl :: contractFactory where
  "example_impl = \<lparr>bytecode = ''0x00'', interface = ''Box'', signer = ''deployer''\<rparr>"

text \<open>Options of the deterministic path: the factory above and the salt \<^verbatim>\<open>'test'\<close>.\<close>

definition example_opts :: "kind option \<Rightarrow> deployProxyOptions" where
  "example_opts k = \<lparr>kind = k, initializer = None, unsafeAllow = None,
     deployFactory = Some example_factory, deployFactorySalt = Some (SaltString ''test'')\<rparr>"

text \<open>The options of the ordinary path with a kind.\<close>

definition example_plain_opts :: "kind option \<Rightarrow> deployProxyOptions" where
  "example_plain_opts k = \<lparr>kind = k, initializer = None, unsafeAllow = None,
     deployFactory = None, deployFactorySalt = None\<rparr>"

text \<open>The example environment with a proxy admin already in the manifest.\<close>

definition example_admin :: deployment where
  "example_admin = \<lparr>address = ''0x2222222222222222222222222222222222222222'',
     txHash = ''0xaa'', deployTransaction = \<lparr>hash = ''0xaa''\<rparr>\<rparr>"

definition admin_env :: env where
  "admin_env = example_env\<lparr>manifest_getAdmin := (\<lambda>evs. Inr (Some example_admin))\<rparr>"

text \<open>
  The example environment with a factory whose second deployment reverts: the
  implementation is deployed, the proxy is not.
\<close>

definition failing_env :: env where
  "failing_env = example_env\<lparr>factory_deploy := (\<lambda>evs f code saltHex.
     if 3 \<le> length evs then Inl (Rejected ''execution reverted'')
     else Inr \<lparr>hash = ''0xtx'' @ digits (length evs)\<rparr>)\<rparr>"

text \<open>The example environment with a factory that rejects every deployment.\<close>

definition reverting_env :: env where
  "reverting_env = example_env\<lparr>factory_deploy := (\<lambda>evs f code saltHex.
     Inl (Rejected ''execution reverted''))\<rparr>"

text \<open>Texts of the example runs: the salt's hash and the init code of the uups proxy.\<close>

definition example_saltHex :: string where
  "example_saltHex = ''0xc4c4c4c4c4c4c4c4c4c4c4c4c4c4c4c4c4c4c4c4c4c4c4c4c4c4c4c4c4c4c4c4''"

definition example_uups_initCode :: string where
  "example_uups_initCode =
     ''0x6080'' @ ''000000000000000000000000e0e0e0e0e0e0e0e0e0e0e0e0e0e0e0e0e0e0e0e0''
       @ ''0000000000000000000000000000000000000000000000000000000000000040''
       @ ''0000000000000000000000000000000000000000000000000000000000000004''
       @ ''8129fc1c00000000000000000000000000000000000000000000000000000000''"

section \<open>Keccak-256\<close>

unbundle bit_operations_syntax

text \<open>
  Keccak-256 as ethers computes it (\<^verbatim>\<open>keccak_256\<close> of js-sha3): the sponge over the
  permutation Keccak-f[1600], 25 lanes of 64 bits, with a rate of 136 bytes, the padding
  0x01 ... 0x80 and 32 bytes of output. The theorems hold for every hash to 32 bytes;
  this one runs the normalisation of a salt as the library does.
\<close>

type_synonym lane = "64 word"

definition round_constants :: "lane list" where
  "round_constants =
     [0x0000000000000001, 0x0000000000008082, 0x800000000000808A, 0x8000000080008000,
      0x000000000000808B, 0x0000000080000001, 0x8000000080008081, 0x8000000000008009,
      0x000000000000008A, 0x0000000000000088, 0x0000000080008009, 0x000000008000000A,
      0x000000008000808B, 0x800000000000008B, 0x8000000000008089, 0x8000000000008003,
      0x8000000000008002, 0x8000000000000080, 0x000000000000800A, 0x800000008000000A,
      0x8000000080008081, 0x8000000000008080, 0x0000000080000001, 0x8000000080008008]"

definition rotation_offsets :: "nat list" where
  "rotation_offsets = [0, 1, 62, 28, 27,  36, 44, 6, 55, 20,  3, 10, 43, 25, 39,
                       41, 45, 15, 21, 8,  18, 2, 61, 56, 14]"

definition rotl64 :: "nat \<Rightarrow> lane \<Rightarrow> lane" where
  "rotl64 n w = push_bit n w OR drop_bit (64 - n) w"

definition theta_C :: "lane list \<Rightarrow> lane list" where
  "theta_C A = map (\<lambda>x. A ! x XOR A ! (x + 5) XOR A ! (x + 10) XOR A ! (x + 15) XOR A ! (x + 20)) [0..<5]"

definition theta_D :: "lane list \<Rightarrow> lane list" where
  "theta_D C = map (\<lambda>x. C ! ((x + 4) mod 5) XOR rotl64 1 (C ! ((x + 1) mod 5))) [0..<5]"

definition theta_apply :: "lane list \<Rightarrow> lane list \<Rightarrow> lane list" where
  "theta_apply D A = map (\<lambda>i. A ! i XOR D ! (i mod 5)) [0..<25]"

definition theta :: "lane list \<Rightarrow> lane list" where
  "theta A = theta_apply (theta_D (theta_C A)) A"

definition rho_pi :: "lane list \<Rightarrow> lane list" where
  "rho_pi A = map (\<lambda>i. rotl64 (rotation_offsets ! ((i mod 5 + 3 * (i div 5)) mod 5 + 5 * (i mod 5)))
                            (A ! ((i mod 5 + 3 * (i div 5)) mod 5 + 5 * (i mod 5)))) [0..<25]"

definition chi :: "lane list \<Rightarrow> lane list" where
  "chi B = map (\<lambda>i. B ! i XOR (NOT (B ! ((i mod 5 + 1) mod 5 + 5 * (i div 5)))
                                AND B ! ((i mod 5 + 2) mod 5 + 5 * (i div 5)))) [0..<25]"

definition iota :: "lane \<Rightarrow> lane list \<Rightarrow> lane list" where
  "iota rc A = (case A of [] \<Rightarrow> [] | a # as \<Rightarrow> (a XOR rc) # as)"

definition keccak_round :: "lane list \<Rightarrow> lane \<Rightarrow> lane list" where
  "keccak_round A rc = iota rc (chi (rho_pi (theta A)))"

definition keccak_f :: "lane list \<Rightarrow> lane list" where
  "keccak_f A = foldl keccak_round A round_constants"

definition keccak_pad :: "byte list \<Rightarrow> byte list" where
  "keccak_pad m =
     (let k = 136 - length m mod 136
      in if k = 1 then m @ [0x81] else m @ [0x01] @ replicate (k - 2) 0 @ [0x80])"

fun lane_of_bytes :: "byte list \<Rightarrow> lane" where
  "lane_of_bytes [] = 0"
| "lane_of_bytes (b # bs) = ucast b OR push_bit 8 (lane_of_bytes bs)"

definition bytes_of_lane :: "lane \<Rightarrow> byte list" where
  "bytes_of_lane w = map (\<lambda>i. ucast (drop_bit (8 * i) w)) [0..<8]"

fun chunks :: "nat \<Rightarrow> 'a list \<Rightarrow> 'a list list" where
  "chunks n [] = []"
| "chunks n (x # xs) = take (Suc (n - 1)) (x # xs) # chunks n (drop (n - 1) xs)"

definition absorb :: "lane list \<Rightarrow> byte list \<Rightarrow> lane list" where
  "absorb A block = keccak_f (map2 (XOR) A (map lane_of_bytes (chunks 8 block) @ replicate 8 0))"

definition Keccak256 :: "byte list \<Rightarrow> byte list" where
  "Keccak256 m =
     take 32 (concat (map bytes_of_lane
       (foldl absorb (replicate 25 0) (chunks 136 (keccak_pad m)))))"

text \<open>The example environment with Keccak-256 for its hash.\<close>

definition keccak_env :: env where
  "keccak_env = example_env\<lparr>keccak_256 := Keccak256\<rparr>"

text \<open>
  A string that spells a raw 32-byte value, and the states of the permutation on the one
  block of its text, from the block itself to the state after the last of the 24 rounds:
  each round is checked on its own.
\<close>

definition raw_salt :: string where
  "raw_salt = ''0xabababababababababababababababababababababababababababababababab''"

definition raw_salt_trace :: "lane list list" where
  "raw_salt_trace =
     [[0x6261626162617830, 0x6261626162616261, 0x6261626162616261, 0x6261626162616261,
       0x6261626162616261, 0x6261626162616261, 0x6261626162616261, 0x6261626162616261,
       0x0000000000016261, 0x0000000000000000, 0x0000000000000000, 0x0000000000000000,
       0x0000000000000000, 0x0000000000000000, 0x0000000000000000, 0x0000000000000000,
       0x8000000000000000, 0x0000000000000000, 0x0000000000000000, 0x0000000000000000,
       0x0000000000000000, 0x0000000000000000, 0x0000000000000000, 0x0000000000000000,
       0x0000000000000000],
      [0x0000000000001a51, 0x8fdb9e7e9e7e9e7e, 0x408042a6130616a6, 0x9858985898589a18,
       0x4f1b5ebe1b0e9cbe, 0x2b632b622b632b6b, 0x265606034a262616, 0x1b9b5b934b931303,
       0x3128126222623a6a, 0x0c8c5c99189c0414, 0xc1c2c1c2c143f5e0, 0xc88bc88bc86cba2b,
       0x0d0c0d0c0c088c0c, 0x252025202476d202, 0xa1aca1aca199818c, 0x00000ab618694400,
       0x6261627000002261, 0x80848084c2ad8484, 0x62616a5218002261, 0xc2c4c2c4c2c4c2c4,
       0x69b0f9b9f93948b8, 0x9326e1a6a326a397, 0x301a513130b119b1, 0x8b6c296c2b6cd25c,
       0x1042004200424807],
      [0x8037cf76ae982157, 0x6cf237c54f87c0c0, 0x9f19161f603063c8, 0xb8bf324e2ef4b05d,
       0x3b8e3e6197e08ccf, 0x6e3c2ab277e3b9ba, 0x6e3d745969c63fb0, 0x0af83e35ffff1867,
       0x7ac765189f5a60e2, 0xdd5e1e0a12b815d3, 0xa731d8d1b9585a0e, 0xcb4c1892b4b543b0,
       0x2c45d9c4d94c045d, 0xbb3dbfe985d054e2, 0xa393b86d70fce728, 0x04467c59f9422416,
       0x1c2dff94b54eefc6, 0x2f60fa388365d0da, 0x60f4f3ae00f6ed31, 0x52b51d2cfed03400,
       0x669e1012fc08676b, 0x1dfb718aee226804, 0x58594222e9ff603f, 0x81af0e10151f904d,
       0xecd0a1cb97739337],
      [0x77d2a39781bf0c4d, 0xe302059c5f67f169, 0x5af5e5acbb763adf, 0x1900dca0258e02af,
       0x859d8305800af9ca, 0xf72e0cd5db186323, 0x0173da9cf861794a, 0x25e2b22dbb36ac6b,
       0x9da6dd0e77a2b302, 0xdc5784ac28881d67, 0xad566ee440b82ea0, 0xe6f858d942fc4d3c,
       0xad62c0b9c437f93d, 0xebbeb31550c5973c, 0x7b6bcde633b07552, 0xb1cdb39133c2a49e,
       0x0dd46f085b97ad27, 0x0e40e8219e70059f, 0x20d105599c6f4f86, 0x51b9364e6f194acc,
       0x5dd2aac75aa3a2e3, 0xda312b7b04a5b5ae, 0xd88656966c87245f, 0xba4612dfa5e513cc,
       0x0cafcdc3c8a5dada],
      [0x2a345520c2e87689, 0xda74a6da44a70fe9, 0xda8d65a6020bd653, 0xe2e26e60039b4180,
       0xa6452dd48ece96f2, 0x1661a6730e29d968, 0x091f495e3d3ae3a5, 0x71d8e0d04d3d8221,
       0x0c61dcb3f6b010dd, 0xdd00eae45583039e, 0x4f931c44823291e0, 0x254eff5f4ebe2282,
       0x1c7efff52e20c522, 0x5b8183b6049f3427, 0x510cade92c9f10f7, 0x4dece963bdcb9c2e,
       0x30cdbe7ff08caf28, 0xe84dcf32ca7814fe, 0x3054891c35ce9fb9, 0x77508d4894ea595f,
       0x8be1d91b58be843f, 0xe48fbd1a829e1f7f, 0x56427502ee892fff, 0x2a1dadda52980876,
       0x0f98a694e96da17c],
      [0xbe9db25decd774a8, 0x6d196a905076fd9e, 0xa18489047ad052b6, 0x488da120d3164a5b,
       0x027a4280d6da3305, 0x434ff02e14e440df, 0x289944da3ca7cdcc, 0xcaa7f8fa10e9afd3,
       0xbb9a52e9f82e9a54, 0xbdd66f6eb0ce2b81, 0xef645524c475f1b6, 0xca721a5c7246f4f2,
       0x6d22e6ea1fff7b8a, 0x8e42a5d7cdef43b7, 0xfd9b686d20d472fb, 0x507940d8ee140e3e,
       0xa8851e64006a08f4, 0x36877312fd41570a, 0x7b9cd1465692427a, 0xf602a5cf62ebd5d9,
       0x6918075732bfd33e, 0xbe786bfa02cfcba9, 0xbcd1b5826042c8f2, 0x99b15ba617bc7533,
       0x9a77acc68e1d9bb5],
      [0x534dfb871e011560, 0x0423609e0271b15e, 0xb5ae9e5b62746e69, 0xb87c42a2157122a3,
       0x78507a3782c13434, 0x8f3b6096b99d646d, 0x061e6cd6e3a77401, 0x9ae07d72d37e822b,
       0xb0d9437f94332023, 0xa361e7f7a05260dd, 0x3463bea7c6a6ae60, 0x065823d00a78fb7f,
       0xafc48f962fa477db, 0x4819b004c86280de, 0x613682e7eb418408, 0x7907c93bb01d615a,
       0xab777135f9b1f350, 0x2dee159fb45966e4, 0xb8355a608cde2866, 0x002950d776898f24,
       0x48dcdc4ec8ccd728, 0x36bd8c4d7536473d, 0x4bf7843e222b9025, 0x8dd330c84b5ac6d8,
       0x8627402dfa8185db],
      [0xfd1b575a90947b64, 0x5cfbb1377a62caae, 0x4f14b7e639ddaa86, 0x1888b6fc314c1d52,
       0x7ed631d9a4a31422, 0x60c9aa6e7b36df08, 0xd016802c76260261, 0xdea88dd6417b0768,
       0x207fd44b871fdc3c, 0x971dec062b095800, 0x21855653244d15e5, 0xd1ee7c22cde4a2f8,
       0x50931ba77129348c, 0xcf7a7009eb71fa06, 0x874f053c25057633, 0xc7598c57f4d7f24e,
       0x1900ed9c14480383, 0x43b5accac96b544f, 0x3922eb190b802b7a, 0x9c11705a6ec03bae,
       0x29a57d1516114f7a, 0x83d5b87cef49e928, 0x999d6bd2ad0d9a23, 0x19f39afaa0c64146,
       0x0b431a891c1d7248],
      [0x0bd0145cf3ab8c91, 0xe4461b7b30216808, 0x41b0e5c762afa368, 0xb6fa8163425e30a5,
       0x236ba709cec9ee57, 0x202296d776030b49, 0xf11832c186fa9577, 0x35e49e8e4bcb3a5a,
       0x54e447fdbf56dc17, 0x4f0617960f80c730, 0x7ed65c891374709e, 0xe017e867f4b95767,
       0x2e345895cecfdef4, 0x1b074ddbff5100ee, 0x7b5e4da43258781e, 0x7bc08a6c74678726,
       0xf02ad760680e8fe5, 0x2d0d34f47841ac45, 0xe950ad615b3f316b, 0xa7cb0d191f6dd338,
       0x58859e319bad36ec, 0x2ae46bab16bba305, 0x895bb2e6822911c0, 0x8d1b03035f3baabb,
       0xbba4dd9626c92735],
      [0x5a0aeb8cf0ff672e, 0xda3595914b303c4c, 0x16b92dd6bc162ff0, 0x7c5a71b078913fda,
       0xfb76f09f3c687acf, 0x58af288ce4d3477d, 0xc366385312c3cc78, 0x4426483e177e4ad5,
       0xab9da744eb7325ab, 0x13df87a4cc482706, 0x1490b710e702a520, 0x33fa7515fd9c4258,
       0xdcefd174ea67006f, 0x82ad95cb986828d4, 0x07cee25071347995, 0xadf142aeba0671b4,
       0x51ca18d1074618eb, 0x7d870331279032a0, 0x8046641478d25cb3, 0x406fa9ace1d79752,
       0x55a5b4a69654b263, 0xb4403506ad1a1e3a, 0x1561eca537fe1ad3, 0xae5b1059a0ab5b0e,
       0x89f9a8f979a3092e],
      [0xe449949bf7e8bcf5, 0xb90a964619c4d295, 0x941b960b164e038c, 0x6c137edc68e55206,
       0x77ecef2a2c5ac911, 0x60b7592c3d724168, 0x56fb923910eb4ab9, 0xa42649df026fe35d,
       0x18a59e52c9a9af7b, 0xcbdd8af9d3cc7e18, 0xf7f243323d0f60f7, 0xfafc99632ec9143d,
       0x5f9790625a9305c5, 0x0b0bedbeb53342d7, 0x2266f9800603a247, 0x228f2a14788c025e,
       0x1d23434c7591e90b, 0xee015e4183bb3500, 0xcce057362432b639, 0x6a456e092cd26242,
       0x5d3daf9ce0587c5f, 0x690568409a5549fe, 0x43d0e2417dea830e, 0x008cf7ae0b19d537,
       0x7c3454595a970a36],
      [0xaa395cb9b0741e0e, 0xd08e51c827e7593b, 0xaf89c318fff93202, 0x94f17e0a02af52dc,
       0x3b3cce9203903446, 0x347667b78bba7c3a, 0x0531d39a07839841, 0xc43d49c13cd200b9,
       0x41dadcbbd667d360, 0x682a01e07c6821d5, 0x7692345c6e256d12, 0x4b683de73d55bc68,
       0x081ea5e713363795, 0x88d1bb85097b1246, 0x1fd2fc9273accd19, 0x17dc6a9a0fee87ac,
       0x2666cbbaec7b40e6, 0xd5862cc136e587f2, 0x5f8cda0b501cf4c4, 0x70f0ab68bfa56a3e,
       0x84bccc96ee316df8, 0x1a64098169f3118d, 0x6f6e1ac667a90b70, 0x50c9968155f129c6,
       0x8f73118242ca2280],
      [0xc4c46e93db2d560b, 0x6620abc284af7333, 0x5d30f8c9e21ba35c, 0x3cb2654bb024dc7a,
       0xc782fcffed2523bd, 0x67daadb4b1d2e75e, 0xfa3d4858d48e1fb1, 0x2afa325972803aae,
       0xd4d9bbdaf810ab5d, 0x253cf9cce5f98fff, 0x213fa6b920e36f61, 0xc18f8c8da56c4ea4,
       0x98d42b97027ff063, 0x35c76f06b0ee34f5, 0x3e84f1e681f1c956, 0xcd1d1da1d4ffc245,
       0x063b4a8c3ba5bb12, 0x447d2aa2ad2b1889, 0x710936724bfce95a, 0x31cd46c18436cf80,
       0x6708056ef5da68a2, 0x50e55ee9abdab3a3, 0xccc48aec16ff4ce1, 0xec96528ae25d3bff,
       0x5d81403277931e86],
      [0xe4eaba5a6f41779c, 0x593b2af47b77be8f, 0x46cdd49ff6c0cd29, 0x0ef2f9e6f28eec73,
       0x8afefda289addbbe, 0xf849484ae3a3ac84, 0xe014432f4462d66e, 0x36f4909c887a7a6c,
       0x70866cba5731645b, 0x08ebcc6d0a671aea, 0x0035aa8179cdf231, 0xe458fd6c7cdef5c9,
       0x06498e1a522d1d0c, 0x966da4026633a904, 0x72f941b6267b0250, 0x575c7a8ba2bace02,
       0x3be2632b1b32f440, 0xd7a5f2f052000cdf, 0xed97177f68f8e53a, 0x234bd8d39e7e6d0e,
       0x4996c849491aafc9, 0x42eff9cfef82dab7, 0xa460c7bf67e32581, 0x07c6b886e743ce09,
       0xde17852c6c8ee23c],
      [0xa5fbca5e567765f6, 0x69a2ae58fd6b4696, 0x56976f1503a9adc0, 0x649f69cdc8b86052,
       0xfbcb63e9ff71f4b9, 0xcd5fc67281cc7999, 0xf296b6b0bf30e388, 0x2b0ca58642da9dce,
       0x5317073a2efaa379, 0x32114e1c5b0e506c, 0x901b77128a23f086, 0x8df8b0e2db11e660,
       0xf4828b74ff11524a, 0xba8aeeebf9d515a1, 0xe24142db40d0300a, 0x01622f030e487cbd,
       0xe108c243c5c4febf, 0xadaf4c56eaac93e5, 0x6d329e89f5bf338f, 0xd20143d40cc737d5,
       0x30c17dfab270c2b2, 0x80b439e040e267ab, 0x8f6c65790b05db62, 0x09431d0480f25f24,
       0xaf55b4c74f9270e0],
      [0x9c75fd39cb4503e7, 0xee5236f4b5ee7858, 0x7fc15308ae3de8b1, 0xc39c340613196c30,
       0xdb3c7b403f694917, 0xec082c7c562d8b57, 0xfe36a550ff46979f, 0x61e643e2f01db140,
       0xd7bbe7340166b268, 0x6578473ef05b9a09, 0xff57380e6b8b85e3, 0xecbc4be6d0ccd962,
       0xb197e27bef6b9d7c, 0xae13c2b41da0b9ef, 0x0afcf62e16765bb9, 0xbbb54b5a24840593,
       0x62bdebdd576d91c1, 0x7223d051be94cc8f, 0x04dec8a096e20511, 0x774fa660e49b5c92,
       0xfcd51ca7b39c001a, 0x650aad1ddebffb15, 0x8d57f3c0e45860fc, 0xd2b74f511aacd9f0,
       0x7b59a7d43f52e12d],
      [0x93100f59eea48d5b, 0x3ce99a1fbada7cbb, 0xe78ddc9f1ab3b6db, 0x4d0b0ff057c0a6e9,
       0x77d84feb43e9d167, 0xe6fc32df8f7017e9, 0xc25383ce82048738, 0xbdf67f625340e181,
       0xc314e7a59ecd0a1b, 0x35d36935be902146, 0x7e604c80472e52f5, 0x8ab563799ec687d3,
       0xd1f47b24421f9f18, 0x816d7fa4fcc771e7, 0x29827a8f17866f93, 0x1ae5720f613fb692,
       0x3cc27aca34b5812d, 0xf3bc6f91ecd50315, 0x71160416d322acfb, 0x1bf326c99f74389e,
       0x1f05d4726ea232b8, 0x90fb41d07f0699d8, 0x38deab7b3a0e1267, 0xcf11e9bbc7f94411,
       0x73dcc7a9317d458c],
      [0x90da320c713470de, 0x8fe3b8d847cba190, 0xb08213f1ec79567c, 0x68eade13506256ec,
       0xc3c1947abce3769c, 0x3432a9af90e8fe9e, 0x5b58d4b0d4b193fa, 0x7d53d726e473ebf6,
       0xafd5be4f12b0c0ef, 0x798c179e74a1e2c6, 0x47fecac65e210d5f, 0xde10db1bb26b9745,
       0x4b59bedb6bc79a3a, 0x19d649eab934bff6, 0x209bd431451401bf, 0x0bb1a7f03e5494de,
       0x6c4fe1ad55604c11, 0x0eb18436d1777b5c, 0x654ca3ce12672032, 0x658af18aabb36b79,
       0x5f755b67685cbe50, 0x26d8fa50b2edaec6, 0x6ce55363b7761ab2, 0x3d7ab31613de97dd,
       0x5db4bb3322189edf],
      [0x1649ee5931f1df6f, 0x438d205336478b6d, 0x1103b8fddb8567fe, 0x89e2be2035789a4a,
       0xff4a02e916f7ad33, 0x0fed69af5c987499, 0xd5565312ff21afe7, 0x6b74241caf051f6d,
       0xace6ae45cec9f671, 0xb43c61f6b3cba749, 0x20389f33001cb849, 0x14d35cf594a24ecc,
       0xdb2282171f7802ac, 0x739318920fe648e5, 0x6819c621d3adf114, 0xe08ad0dd3994fdb7,
       0x93d3827b6a3edcf9, 0xec3d6b448ddeee81, 0x251078732808b63f, 0x16cd7424d535e851,
       0x3f203008a7469778, 0x3997f486e60b416a, 0x106e6765f2db71b6, 0x3ff6d97af453832b,
       0x62cb78d5020b6faa],
      [0x1f8ff64d17b8d8fa, 0xf080ecb7cb500a54, 0x46b7695e4c4534e4, 0x36d7b1705327dce7,
       0x0802bbc0ab62fab2, 0xba659b0e97236646, 0xc324d0116f5be60f, 0x8e44277a16871b03,
       0x4fd6a9b9aa799d4c, 0xf48a6d2a4e6654bf, 0x3f5ffb7bdc36749b, 0xb7c6db59cb39b932,
       0x98e28e898f140df3, 0xc30090c9bf296a8c, 0x6dd29428321c6860, 0xb4ccaf6bb9ca22db,
       0xfdb6f86085c7217d, 0xaf010cbbd97561b5, 0x86f90e7b5c382c09, 0x40ce739832a6fdbb,
       0xbe6b2a92169866e5, 0xa9fb99fd73dcb504, 0x71a9bbd402873706, 0xd89619dcf11726b1,
       0x97303585711b5939],
      [0x5d1e9e57b0761e3e, 0xc8949e376cc5c904, 0xcf5ef12c909872d4, 0x58dbcac30e5a892e,
       0xa3695fcf5ba414d4, 0x5a4705d0a556ce52, 0x5024480691b3014d, 0xe80d9b4eff27f00f,
       0xda81f89a02d4851e, 0x2d8b48593982d6a8, 0xbbd02bc5e1cf7adc, 0x296ca5de47e65f25,
       0x6310ce37f3ac839d, 0xf50b9c7a40828f80, 0x8e0555a81e8d6361, 0xa5ba3e2ac472c0b7,
       0x5f1b63e1896d7a52, 0x988c5493bb6bb0ec, 0xffef436e27ed5bf1, 0xd09b27e2a85f48d7,
       0x92999008cce729bb, 0x3aa21b4bc10e6bb6, 0xdfc37216dcb70f5f, 0x3c144ab8ef1ec68c,
       0x9a4b950153afcb4c],
      [0x37e73a21528a3168, 0x63cbbddd74356825, 0x4ac17f9810e6c62c, 0xbcd86294c34d2004,
       0x039dce31318a4669, 0x4698132576e98298, 0x3654cad5f5ccf75c, 0x4d30081e1b69ecd2,
       0x0b208b7d770c9843, 0xbc1a2e4785f733cc, 0xaa470d043e05fe4e, 0x0be3f8150e83e514,
       0xbb29dfc0fae4517e, 0x67b9d45492914d57, 0x9c4a496d1823c080, 0xd96d1d4b040578b4,
       0x7ea89c588bd42820, 0x0b592a38df85abb2, 0x800aa87105fb0adc, 0x5329773958b06775,
       0xdcc2a7f29fe17a71, 0xef24f145faeb67f3, 0x037d68b7ddea48b3, 0x9d45edce1ff0d93c,
       0xff6052264bb7d30c],
      [0x26cb75401739d901, 0x3ea24893b89ea527, 0xb88ddb7e2c2ca3f8, 0x74332b961d9c67e2,
       0x1dc5d509b2c443f4, 0x04ffb3a08372f94c, 0x99a2b3b8acf69f34, 0xd1020e4dcfb58169,
       0xaee689995ade848b, 0x39d22f5e57cf24af, 0xa173a4e6fe64b4b2, 0x370686e606e24164,
       0x9ff37f26df9898d1, 0x0832c54149e37e03, 0xa9db72c941c231db, 0x2432dbd373b5e4aa,
       0xdbbc8b8e2647bf0b, 0x36ec6da0246df2f3, 0x9c5e23db18fb0f42, 0x57bab01b02d25442,
       0x05e75a2504c76d8e, 0x3dd142bcded5cd8d, 0xbf3683da50866c33, 0x2ae439d310ef951f,
       0x593ac926afb8762c],
      [0x4910ec145aa837cc, 0x76bef6b78ffd6637, 0x545a750c8189bbc7, 0xdf58a3e84bfc0c3d,
       0x284e34aed7aa5e12, 0xd4224b7beddedd9d, 0xd7bcac0dc2f18aa0, 0x77450ce03d5415d2,
       0xa93912c69c1455d3, 0x8bb84db534df8f55, 0xc6dcd71ee42de1bc, 0xf6da2f9270e97da9,
       0xd9c1df269ee33345, 0x0412bf149d4e807e, 0x39e76dd03bc9b5f0, 0x7dd059d2a9f1ab57,
       0x7e512580e4e2bfd1, 0x21a53839ac1ffeeb, 0xadcde1eefb12ec3b, 0xc05a7f9aec4957d8,
       0xc51324037333af83, 0xe26aac845a03b164, 0x66be0f8c589457bf, 0x0c844d956002975c,
       0xaa546edd4172757d],
      [0xffc818c3ba2e8f55, 0x0ee9d4f9a8772c6b, 0x538e2d778b1c24f4, 0x7b30c42a8a5e06cf,
       0x35e664cd326f4fed, 0xf744690d482e33d8, 0x78434d317d5ad58d, 0x4840547cb318c474,
       0xad1c55df617bfa02, 0x697e12565a0e7dbc, 0x9f315be1e69c1047, 0xac6b03c90e3be113,
       0xa259eaa1aca35160, 0xa2e72b2ec9ef5cd5, 0x479402f1537966af, 0x60a84344f1a9717d,
       0xe5420ba02daee8e9, 0xcd130c9488727c9f, 0xc0e3463b13e7e259, 0xf853775cfc5fb3af,
       0xc8f7a97aeb523060, 0xa05a656440d0d076, 0xa696b15fa969383d, 0xfbe5943411700f9c,
       0xda3a4f69eb439ec7]]"

section \<open>Hexadecimal text\<close>

lemma hexValue_hexDigit: "n < 16 \<Longrightarrow> hexValue (hexDigit n) = Some n"
proof -
  assume "n < 16"
  then have "n \<in> set [0..<16]" by simp
  then show ?thesis
    unfolding upt_rec [of 0] by (auto simp: hexValue_def hexDigit_def upt_rec)
qed

lemma lower_hexDigit: "n < 16 \<Longrightarrow> lower_char (hexDigit n) = hexDigit n"
proof -
  assume "n < 16"
  then have "n \<in> set [0..<16]" by simp
  then show ?thesis
    by (auto simp: lower_char_def hexDigit_def upt_rec)
qed

lemma byte_hi: "unat (b :: byte) div 16 < 16"
proof -
  have "unat b < 256" using unsigned_less [of b, where ?'a = nat] by simp
  then show ?thesis by simp
qed

lemma byte_split: "of_nat (16 * (unat b div 16) + unat b mod 16) = (b :: byte)"
  by simp

lemma hexBytes_hexByte: "hexBytes (hexByte b @ cs) = map_option ((#) b) (hexBytes cs)"
proof -
  have "unat b div 16 < 16" by (rule byte_hi)
  then show ?thesis
    by (cases "hexBytes cs") (simp_all add: hexByte_def hexValue_hexDigit)
qed

lemma hexBytes_hexDigits_append: "hexBytes (hexDigits bs @ cs) = map_option ((@) bs) (hexBytes cs)"
  by (induction bs) (simp_all add: hexDigits_def hexBytes_hexByte option.map_comp comp_def option.map_ident)

lemma hexBytes_hexDigits: "hexBytes (hexDigits bs) = Some bs"
  using hexBytes_hexDigits_append [of bs "[]"] by simp

lemma hexBytes_append:
  "hexBytes a = Some x \<Longrightarrow> hexBytes (a @ b) = map_option ((@) x) (hexBytes b)"
proof (induction a arbitrary: x rule: hexBytes.induct)
  case 1
  then show ?case by (simp add: option.map_ident)
next
  case (2 c)
  then show ?case by simp
next
  case (3 c d cs)
  then show ?case
    by (cases "hexBytes b") (auto split: option.splits)
qed

lemma arrayify_hexlify: "arrayify (hexlify bs) = Inr bs"
  by (simp add: arrayify_def hexlify_def hexBytes_hexDigits)

lemma replace_0x_hexlify: "replace_0x (hexlify bs) = hexDigits bs"
  by (simp add: hexlify_def)

lemma length_hexDigits: "length (hexDigits bs) = 2 * length bs"
  by (induction bs) (simp_all add: hexDigits_def hexByte_def)

lemma drop_hexDigits: "drop (2 * n) (hexDigits bs) = hexDigits (drop n bs)"
proof (induction bs arbitrary: n)
  case Nil
  then show ?case by (simp add: hexDigits_def)
next
  case (Cons b bs)
  show ?case
  proof (cases n)
    case 0
    then show ?thesis by simp
  next
    case (Suc m)
    have "drop (2 * Suc m) (hexDigits (b # bs)) = drop (2 * m) (hexDigits bs)"
      by (simp add: hexDigits_def hexByte_def)
    then show ?thesis using Cons.IH [of m] Suc by simp
  qed
qed

lemma toLowerCase_hexDigits: "toLowerCase (hexDigits bs) = hexDigits bs"
proof (induction bs)
  case Nil
  then show ?case by (simp add: toLowerCase_def hexDigits_def)
next
  case (Cons b bs)
  have "unat b div 16 < 16" by (rule byte_hi)
  with Cons show ?case
    by (simp add: toLowerCase_def hexDigits_def hexByte_def lower_hexDigit)
qed


lemma arrayify_append:
  assumes "arrayify s = Inr bs"
  shows "arrayify (s @ hexDigits cs) = Inr (bs @ cs)"
proof -
  from assms obtain r where s: "s = CHR ''0'' # CHR ''x'' # r" and r: "hexBytes r = Some bs"
    by (auto simp: arrayify_def split: list.splits if_splits option.splits)
  show ?thesis
    by (simp add: s arrayify_def hexBytes_append [OF r] hexBytes_hexDigits)
qed

lemma keccak256_hex:
  "arrayify s = Inr bs \<Longrightarrow> keccak256 env s = Inr (hexlify (keccak_256 env bs))"
  by (simp add: keccak256_def)

lemma buildBytecode_hex:
  "abi_encode env ts cargs = Inr enc \<Longrightarrow>
   buildBytecode env ts cargs code = Inr (code @ hexDigits enc)"
  by (simp add: buildBytecode_def encodeParams_def hexlify_def)

lemma slice_last_hash:
  assumes "length h = 32"
  shows "toLowerCase (''0x'' @ slice_last 40 (hexlify h)) = hexlify (low_order 20 h)"
proof -
  have "slice_last 40 (hexlify h) = drop (2 * 12) (hexDigits h)"
    using assms by (simp add: slice_last_def hexlify_def length_hexDigits)
  also have "\<dots> = hexDigits (drop 12 h)" by (rule drop_hexDigits)
  finally have "slice_last 40 (hexlify h) = hexDigits (low_order 20 h)"
    using assms by (simp add: low_order_def)
  then show ?thesis
    using toLowerCase_hexDigits [of "low_order 20 h"]
    by (simp add: toLowerCase_def hexlify_def lower_char_def)
qed

lemma buildCreate2Address_bytes:
  assumes len: "\<And>bs. length (keccak_256 env bs) = 32"
    and fa: "hexBytes (replace_0x factoryAddress) = Some fa"
    and code: "arrayify byteCode = Inr initCode"
  shows "buildCreate2Address env factoryAddress (hexlify saltHash) byteCode =
           Inr (hexlify (create2_address env fa saltHash initCode))"
proof -
  let ?h = "keccak_256 env initCode"
  have join: "arrayify (''0x'' @ concat (map replace_0x [''ff'', factoryAddress, hexlify saltHash, hexlify ?h]))
                = Inr (0xff # fa @ saltHash @ ?h)"
    by (simp add: arrayify_def replace_0x_hexlify hexValue_def hexBytes_append [OF fa]
        hexBytes_hexDigits_append hexBytes_hexDigits)
  show ?thesis
    using keccak256_hex [OF join, of env]
      slice_last_hash [OF len, of "0xff # fa @ saltHash @ ?h"]
    by (simp add: buildCreate2Address_def keccak256_hex [OF code] create2_address_def)
qed

lemma getCreate2Address_bytes:
  assumes len: "\<And>bs. length (keccak_256 env bs) = 32"
    and fa: "hexBytes (replace_0x factoryAddress) = Some fa"
    and code: "arrayify contractBytecode = Inr creationCode"
    and enc: "abi_encode env (orDefault [] constructorTypes) (orDefault [] constructorArgs) = Inr enc"
  shows "getCreate2Address env factoryAddress salt contractBytecode constructorTypes constructorArgs =
           Inr (hexlify (create2_address env fa
                  (keccak_256 env (toUtf8Bytes (salt_toString salt))) (creationCode @ enc)))"
  using buildCreate2Address_bytes [OF len fa arrayify_append [OF code], of _ enc]
  by (simp add: getCreate2Address_def buildBytecode_hex [OF enc] saltToHex_def ethers_id_def)

lemma length_create2_address:
  "(\<And>bs. length (keccak_256 env bs) = 32) \<Longrightarrow> length (create2_address env fa sh ic) = 20"
  by (simp add: create2_address_def low_order_def)

lemma toLowerCase_hexlify: "toLowerCase (hexlify bs) = hexlify bs"
  using toLowerCase_hexDigits [of bs] by (simp add: toLowerCase_def hexlify_def lower_char_def)

section \<open>The steps of a deployment\<close>

lemmas run_defs = bindR_def returnR_def throwR_def liftR_def awaitR_def askR_def logWarning_def

lemma getCreate2Address_defaults:
  "getCreate2Address env fa salt code (Some (orDefault [] ts)) (Some (orDefault [] cargs)) =
   getCreate2Address env fa salt code ts cargs"
  by (simp add: getCreate2Address_def orDefault_def)

lemma deployContract_cases:
  assumes "deployContract env salt factory code ts cargs evs = (r, evs')"
  shows "(\<exists>e. r = Inl e \<and> evs' = evs) \<or>
         (\<exists>byteCode addr t. r = Inr \<lparr>address = addr, txHash = hash t, deployTransaction = t\<rparr>
            \<and> evs' = evs @ [FactoryDeploy factory byteCode (saltToHex env salt) t]
            \<and> buildBytecode env (orDefault [] ts) (orDefault [] cargs) code = Inr byteCode
            \<and> getCreate2Address env (c_address factory) salt code ts cargs = Inr addr
            \<and> factory_deploy env evs factory byteCode (saltToHex env salt) = Inr t)"
  using assms
  by (auto simp: deployContract_def run_defs Let_def getCreate2Address_defaults split: sum.splits)

lemma bindR_eq:
  "(bindR m f evs = (r, evs')) =
     ((\<exists>e. m evs = (Inl e, evs') \<and> r = Inl e)
      \<or> (\<exists>x evs1. m evs = (Inr x, evs1) \<and> f x evs1 = (r, evs')))"
  by (auto simp: bindR_def split: prod.splits sum.splits)

lemma awaitR_eq:
  "(awaitR call ev evs = (r, evs')) =
     ((\<exists>e. call evs = Inl e \<and> r = Inl e \<and> evs' = evs)
      \<or> (\<exists>x. call evs = Inr x \<and> r = Inr x \<and> evs' = evs @ [ev x]))"
  by (auto simp: awaitR_def split: sum.splits)

lemma askR_eq: "(askR call evs = (r, evs')) = (r = call evs \<and> evs' = evs)"
  by (auto simp: askR_def)

lemma liftR_eq: "(liftR v evs = (r, evs')) = (r = v \<and> evs' = evs)"
  by (auto simp: liftR_def)

lemma returnR_eq: "(returnR x evs = (r, evs')) = (r = Inr x \<and> evs' = evs)"
  by (auto simp: returnR_def)

lemma throwR_eq: "(throwR e evs = (r, evs')) = (r = Inl e \<and> evs' = evs)"
  by (auto simp: throwR_def)

lemma logWarning_eq:
  "(logWarning t ls evs = (r, evs')) = (r = Inr () \<and> evs' = evs @ [LogWarning t ls])"
  by (auto simp: logWarning_def)

lemmas run_eqs = bindR_eq awaitR_eq askR_eq liftR_eq returnR_eq throwR_eq logWarning_eq

lemma resolveImpl_events:
  assumes "resolveImpl env F opts evs = (r, evs')"
  shows "\<exists>new. evs' = evs @ new \<and> list_all implEvent new"
  using assms
  apply (cases "deployFactory opts"; cases "deployFactorySalt opts")
  apply (auto simp: resolveImpl_def run_defs Let_def split: sum.splits prod.splits
              dest!: deployContract_cases)
  done

lemma resolveImpl_deterministic:
  assumes "deployFactory opts = Some factory" and "deployFactorySalt opts = Some salt"
    and "resolveImpl env F opts evs = (Inr (impl, k), evs')"
  shows "k = orDefault Uups (kind opts)
         \<and> getCreate2Address env (c_address factory) salt (bytecode F) (Some []) (Some []) = Inr impl
         \<and> (\<exists>code t. buildBytecode env [] [] (bytecode F) = Inr code
               \<and> factory_deploy env evs factory code (saltToHex env salt) = Inr t
               \<and> evs' = evs @ [FactoryDeploy factory code (saltToHex env salt) t, TxWait t])"
  using assms
  by (auto simp: resolveImpl_def run_defs Let_def orDefault_def split: sum.splits prod.splits
           dest!: deployContract_cases)

lemma resolveImpl_ordinary:
  assumes "deployFactory opts = None \<or> deployFactorySalt opts = None"
    and "resolveImpl env F opts evs = (Inr (impl, k), evs')"
  shows "deployProxyImpl env evs F opts = Inr (impl, k)
         \<and> evs' = evs @ [DeployProxyImpl F opts impl k]"
  using assms
  by (cases "deployFactory opts"; cases "deployFactorySalt opts")
     (auto simp: resolveImpl_def run_defs split: sum.splits prod.splits)

lemma adminWarning_events:
  assumes "adminWarning env k evs = (r, evs')"
  shows "evs' = evs \<or> (k = Uups \<and> r = Inr () \<and> (\<exists>new. evs' = evs @ [new] \<and> isLogWarning new))"
  using assms by (auto simp: adminWarning_def run_defs split: if_splits sum.splits)

lemma proxyFactoryArgs_events:
  assumes "proxyFactoryArgs env F k impl data evs = (r, evs')"
  shows "evs' = evs \<or> (k = Transparent \<and> (\<exists>new. evs' = evs @ [new] \<and> isFetchOrDeployAdmin new))"
  using assms by (auto simp: proxyFactoryArgs_def run_defs split: kind.splits sum.splits)

lemma submitProxy_events:
  assumes "submitProxy env opts k PF pargs ptypes evs = (r, evs')"
  shows "(\<exists>e. r = Inl e \<and> evs' = evs)
         \<or> (\<exists>p sub. r = Inr p \<and> evs' = evs @ [sub] \<and> submits sub p \<and> proxyKind p = k)"
  using assms
  by (cases "deployFactory opts"; cases "deployFactorySalt opts")
     (auto simp: submitProxy_def run_eqs withKind_def split: sum.splits
           dest!: deployContract_cases)

lemma implEvent_filters:
  assumes "list_all implEvent xs"
  shows "filter isAddProxy xs = []" and "filter isLogWarning xs = []"
    and "filter isFetchOrDeployAdmin xs = []"
proof -
  have "filter isAddProxy xs = [] \<and> filter isLogWarning xs = []
        \<and> filter isFetchOrDeployAdmin xs = []"
    using assms
  proof (induction xs)
    case Nil
    then show ?case by simp
  next
    case (Cons x xs)
    then show ?case by (cases x) simp_all
  qed
  then show "filter isAddProxy xs = []" and "filter isLogWarning xs = []"
    and "filter isFetchOrDeployAdmin xs = []"
    by simp_all
qed

lemma submits_class:
  assumes "submits sub p"
  shows "isAddProxy sub = False" and "isLogWarning sub = False"
    and "isFetchOrDeployAdmin sub = False"
  using assms by (cases sub; simp)+

lemma isLogWarning_class:
  assumes "isLogWarning e"
  shows "isAddProxy e = False" and "isFetchOrDeployAdmin e = False"
  using assms by (cases e; simp)+

lemma isFetchOrDeployAdmin_class:
  assumes "isFetchOrDeployAdmin e"
  shows "isAddProxy e = False" and "isLogWarning e = False"
  using assms by (cases e; simp)+

lemmas event_classes = implEvent_filters submits_class isLogWarning_class
  isFetchOrDeployAdmin_class butlast_append last_append

section \<open>Runs in the example environment\<close>

lemma example_hash_length: "length (keccak_256 example_env bs) = 32"
  by (simp add: example_env_def example_hash_def)

lemma example_uups_run:
  "deployProxy example_env example_impl (Some (ArgsArray [])) (Some (example_opts None)) [] =
     (Inr \<lparr>inst_address = ''0xc0c0c0c0c0c0c0c0c0c0c0c0c0c0c0c0c0c0c0c0'', inst_interface = ''Box'',
            inst_signer = ''deployer'', inst_deployTransaction = \<lparr>hash = ''0xtx3''\<rparr>\<rparr>,
      [ManifestForNetwork,
       FactoryDeploy example_factory ''0x00'' example_saltHex \<lparr>hash = ''0xtx1''\<rparr>,
       TxWait \<lparr>hash = ''0xtx1''\<rparr>,
       FactoryDeploy example_factory example_uups_initCode example_saltHex \<lparr>hash = ''0xtx3''\<rparr>,
       AddProxy \<lparr>address = ''0xc0c0c0c0c0c0c0c0c0c0c0c0c0c0c0c0c0c0c0c0'', txHash = ''0xtx3'',
                 deployTransaction = \<lparr>hash = ''0xtx3''\<rparr>, proxyKind = Uups\<rparr>])"
  by code_simp

lemma example_beacon_run:
  "deployProxy example_env example_impl (Some (ArgsArray [])) (Some (example_opts (Some Beacon))) [] =
     (Inl BeaconProxyUnsupportedError,
      [ManifestForNetwork,
       FactoryDeploy example_factory ''0x00'' example_saltHex \<lparr>hash = ''0xtx1''\<rparr>,
       TxWait \<lparr>hash = ''0xtx1''\<rparr>])"
  by code_simp

lemma example_failing_run:
  "deployProxy failing_env example_impl (Some (ArgsArray []))
     (Some (example_opts (Some Transparent))) [] =
     (Inl (Rejected ''execution reverted''),
      [ManifestForNetwork,
       FactoryDeploy example_factory ''0x00'' example_saltHex \<lparr>hash = ''0xtx1''\<rparr>,
       TxWait \<lparr>hash = ''0xtx1''\<rparr>,
       FetchOrDeployAdmin \<lparr>bytecode = ''0x6082'', interface = ''ProxyAdmin'', signer = ''deployer''\<rparr>
         ''0x2222222222222222222222222222222222222222''])"
  by code_simp

lemma example_resolve_run:
  "resolveImpl example_env example_impl (example_opts k) [ManifestForNetwork] =
     (Inr (''0xe0e0e0e0e0e0e0e0e0e0e0e0e0e0e0e0e0e0e0e0'', orDefault Uups k),
      [ManifestForNetwork,
       FactoryDeploy example_factory ''0x00'' example_saltHex \<lparr>hash = ''0xtx1''\<rparr>,
       TxWait \<lparr>hash = ''0xtx1''\<rparr>])"
  by (cases k) (code_simp+)

lemma example_transparent_run:
  "deployProxy example_env example_impl (Some (ArgsOptions (example_plain_opts (Some Transparent))))
     None [] =
     (Inr \<lparr>inst_address = ''0x3333333333333333333333333333333333333333'', inst_interface = ''Box'',
            inst_signer = ''deployer'', inst_deployTransaction = \<lparr>hash = ''0xtx3''\<rparr>\<rparr>,
      [ManifestForNetwork,
       DeployProxyImpl example_impl (example_plain_opts (Some Transparent))
         ''0x1111111111111111111111111111111111111111'' Transparent,
       FetchOrDeployAdmin \<lparr>bytecode = ''0x6082'', interface = ''ProxyAdmin'', signer = ''deployer''\<rparr>
         ''0x2222222222222222222222222222222222222222'',
       Deploy \<lparr>bytecode = ''0x6081'', interface = ''TransparentUpgradeableProxy'',
                signer = ''deployer''\<rparr>
         [VString ''0x1111111111111111111111111111111111111111'',
          VString ''0x2222222222222222222222222222222222222222'', VString ''0x8129fc1c'']
         \<lparr>address = ''0x3333333333333333333333333333333333333333'', txHash = ''0xtx3'',
            deployTransaction = \<lparr>hash = ''0xtx3''\<rparr>\<rparr>,
       AddProxy \<lparr>address = ''0x3333333333333333333333333333333333333333'', txHash = ''0xtx3'',
                 deployTransaction = \<lparr>hash = ''0xtx3''\<rparr>, proxyKind = Transparent\<rparr>])"
  by code_simp

lemma example_plain_resolve_run:
  "resolveImpl example_env example_impl (example_plain_opts k) [ManifestForNetwork] =
     (Inr (''0x1111111111111111111111111111111111111111'', orDefault Transparent k),
      [ManifestForNetwork,
       DeployProxyImpl example_impl (example_plain_opts k)
         ''0x1111111111111111111111111111111111111111'' (orDefault Transparent k)])"
  by (simp add: resolveImpl_def run_defs example_plain_opts_def example_env_def)

lemma example_normalize:
  "normalizeArgs (Some (ArgsArray xs)) (Some opts) = (xs, opts)"
  "normalizeArgs (Some (ArgsOptions opts)) None = ([], opts)"
  by (simp_all add: normalizeArgs_def orDefault_def)

lemma example_forNetwork: "manifest_forNetwork example_env evs = Inr ()"
  by (simp add: example_env_def)

section \<open>Keccak-256 on the text of the raw salt\<close>

lemma theta_C_unroll: "theta_C [a0, a1, a2, a3, a4, a5, a6, a7, a8, a9, a10, a11, a12, a13, a14, a15, a16, a17, a18, a19, a20, a21, a22, a23, a24] = [a0 XOR a5 XOR a10 XOR a15 XOR a20, a1 XOR a6 XOR a11 XOR a16 XOR a21, a2 XOR a7 XOR a12 XOR a17 XOR a22, a3 XOR a8 XOR a13 XOR a18 XOR a23, a4 XOR a9 XOR a14 XOR a19 XOR a24]"
  by (simp add: theta_C_def upt_rec)
lemma theta_D_unroll: "theta_D [c0, c1, c2, c3, c4] = [c4 XOR rotl64 1 c1, c0 XOR rotl64 1 c2, c1 XOR rotl64 1 c3, c2 XOR rotl64 1 c4, c3 XOR rotl64 1 c0]"
  by (simp add: theta_D_def upt_rec)
lemma theta_apply_unroll: "theta_apply [c0, c1, c2, c3, c4] [a0, a1, a2, a3, a4, a5, a6, a7, a8, a9, a10, a11, a12, a13, a14, a15, a16, a17, a18, a19, a20, a21, a22, a23, a24] = [a0 XOR c0, a1 XOR c1, a2 XOR c2, a3 XOR c3, a4 XOR c4, a5 XOR c0, a6 XOR c1, a7 XOR c2, a8 XOR c3, a9 XOR c4, a10 XOR c0, a11 XOR c1, a12 XOR c2, a13 XOR c3, a14 XOR c4, a15 XOR c0, a16 XOR c1, a17 XOR c2, a18 XOR c3, a19 XOR c4, a20 XOR c0, a21 XOR c1, a22 XOR c2, a23 XOR c3, a24 XOR c4]"
  by (simp add: theta_apply_def upt_rec)
lemma rho_pi_unroll: "rho_pi [a0, a1, a2, a3, a4, a5, a6, a7, a8, a9, a10, a11, a12, a13, a14, a15, a16, a17, a18, a19, a20, a21, a22, a23, a24] = [rotl64 0 a0, rotl64 44 a6, rotl64 43 a12, rotl64 21 a18, rotl64 14 a24, rotl64 28 a3, rotl64 20 a9, rotl64 3 a10, rotl64 45 a16, rotl64 61 a22, rotl64 1 a1, rotl64 6 a7, rotl64 25 a13, rotl64 8 a19, rotl64 18 a20, rotl64 27 a4, rotl64 36 a5, rotl64 10 a11, rotl64 15 a17, rotl64 56 a23, rotl64 62 a2, rotl64 55 a8, rotl64 39 a14, rotl64 41 a15, rotl64 2 a21]"
  by (simp add: rho_pi_def rotation_offsets_def upt_rec)
lemma chi_unroll: "chi [a0, a1, a2, a3, a4, a5, a6, a7, a8, a9, a10, a11, a12, a13, a14, a15, a16, a17, a18, a19, a20, a21, a22, a23, a24] = [a0 XOR (NOT a1 AND a2), a1 XOR (NOT a2 AND a3), a2 XOR (NOT a3 AND a4), a3 XOR (NOT a4 AND a0), a4 XOR (NOT a0 AND a1), a5 XOR (NOT a6 AND a7), a6 XOR (NOT a7 AND a8), a7 XOR (NOT a8 AND a9), a8 XOR (NOT a9 AND a5), a9 XOR (NOT a5 AND a6), a10 XOR (NOT a11 AND a12), a11 XOR (NOT a12 AND a13), a12 XOR (NOT a13 AND a14), a13 XOR (NOT a14 AND a10), a14 XOR (NOT a10 AND a11), a15 XOR (NOT a16 AND a17), a16 XOR (NOT a17 AND a18), a17 XOR (NOT a18 AND a19), a18 XOR (NOT a19 AND a15), a19 XOR (NOT a15 AND a16), a20 XOR (NOT a21 AND a22), a21 XOR (NOT a22 AND a23), a22 XOR (NOT a23 AND a24), a23 XOR (NOT a24 AND a20), a24 XOR (NOT a20 AND a21)]"
  by (simp add: chi_def upt_rec)
lemmas keccak_unroll = theta_def theta_C_unroll theta_D_unroll theta_apply_unroll rho_pi_unroll
  chi_unroll keccak_round_def iota_def rotl64_def

lemma raw_salt_round_0:
  "keccak_round (raw_salt_trace ! 0) 0x0000000000000001 = raw_salt_trace ! 1"
  by (simp add: raw_salt_trace_def keccak_unroll)

lemma raw_salt_round_1:
  "keccak_round (raw_salt_trace ! 1) 0x0000000000008082 = raw_salt_trace ! 2"
  by (simp add: raw_salt_trace_def keccak_unroll)

lemma raw_salt_round_2:
  "keccak_round (raw_salt_trace ! 2) 0x800000000000808A = raw_salt_trace ! 3"
  by (simp add: raw_salt_trace_def keccak_unroll)

lemma raw_salt_round_3:
  "keccak_round (raw_salt_trace ! 3) 0x8000000080008000 = raw_salt_trace ! 4"
  by (simp add: raw_salt_trace_def keccak_unroll)

lemma raw_salt_round_4:
  "keccak_round (raw_salt_trace ! 4) 0x000000000000808B = raw_salt_trace ! 5"
  by (simp add: raw_salt_trace_def keccak_unroll)

lemma raw_salt_round_5:
  "keccak_round (raw_salt_trace ! 5) 0x0000000080000001 = raw_salt_trace ! 6"
  by (simp add: raw_salt_trace_def keccak_unroll)

lemma raw_salt_round_6:
  "keccak_round (raw_salt_trace ! 6) 0x8000000080008081 = raw_salt_trace ! 7"
  by (simp add: raw_salt_trace_def keccak_unroll)

lemma raw_salt_round_7:
  "keccak_round (raw_salt_trace ! 7) 0x8000000000008009 = raw_salt_trace ! 8"
  by (simp add: raw_salt_trace_def keccak_unroll)

lemma raw_salt_round_8:
  "keccak_round (raw_salt_trace ! 8) 0x000000000000008A = raw_salt_trace ! 9"
  by (simp add: raw_salt_trace_def keccak_unroll)

lemma raw_salt_round_9:
  "keccak_round (raw_salt_trace ! 9) 0x0000000000000088 = raw_salt_trace ! 10"
  by (simp add: raw_salt_trace_def keccak_unroll)

lemma raw_salt_round_10:
  "keccak_round (raw_salt_trace ! 10) 0x0000000080008009 = raw_salt_trace ! 11"
  by (simp add: raw_salt_trace_def keccak_unroll)

lemma raw_salt_round_11:
  "keccak_round (raw_salt_trace ! 11) 0x000000008000000A = raw_salt_trace ! 12"
  by (simp add: raw_salt_trace_def keccak_unroll)

lemma raw_salt_round_12:
  "keccak_round (raw_salt_trace ! 12) 0x000000008000808B = raw_salt_trace ! 13"
  by (simp add: raw_salt_trace_def keccak_unroll)

lemma raw_salt_round_13:
  "keccak_round (raw_salt_trace ! 13) 0x800000000000008B = raw_salt_trace ! 14"
  by (simp add: raw_salt_trace_def keccak_unroll)

lemma raw_salt_round_14:
  "keccak_round (raw_salt_trace ! 14) 0x8000000000008089 = raw_salt_trace ! 15"
  by (simp add: raw_salt_trace_def keccak_unroll)

lemma raw_salt_round_15:
  "keccak_round (raw_salt_trace ! 15) 0x8000000000008003 = raw_salt_trace ! 16"
  by (simp add: raw_salt_trace_def keccak_unroll)

lemma raw_salt_round_16:
  "keccak_round (raw_salt_trace ! 16) 0x8000000000008002 = raw_salt_trace ! 17"
  by (simp add: raw_salt_trace_def keccak_unroll)

lemma raw_salt_round_17:
  "keccak_round (raw_salt_trace ! 17) 0x8000000000000080 = raw_salt_trace ! 18"
  by (simp add: raw_salt_trace_def keccak_unroll)

lemma raw_salt_round_18:
  "keccak_round (raw_salt_trace ! 18) 0x000000000000800A = raw_salt_trace ! 19"
  by (simp add: raw_salt_trace_def keccak_unroll)

lemma raw_salt_round_19:
  "keccak_round (raw_salt_trace ! 19) 0x800000008000000A = raw_salt_trace ! 20"
  by (simp add: raw_salt_trace_def keccak_unroll)

lemma raw_salt_round_20:
  "keccak_round (raw_salt_trace ! 20) 0x8000000080008081 = raw_salt_trace ! 21"
  by (simp add: raw_salt_trace_def keccak_unroll)

lemma raw_salt_round_21:
  "keccak_round (raw_salt_trace ! 21) 0x8000000000008080 = raw_salt_trace ! 22"
  by (simp add: raw_salt_trace_def keccak_unroll)

lemma raw_salt_round_22:
  "keccak_round (raw_salt_trace ! 22) 0x0000000080000001 = raw_salt_trace ! 23"
  by (simp add: raw_salt_trace_def keccak_unroll)

lemma raw_salt_round_23:
  "keccak_round (raw_salt_trace ! 23) 0x8000000080008008 = raw_salt_trace ! 24"
  by (simp add: raw_salt_trace_def keccak_unroll)

lemmas raw_salt_rounds =
  raw_salt_round_0 raw_salt_round_1 raw_salt_round_2 raw_salt_round_3
  raw_salt_round_4 raw_salt_round_5 raw_salt_round_6 raw_salt_round_7
  raw_salt_round_8 raw_salt_round_9 raw_salt_round_10 raw_salt_round_11
  raw_salt_round_12 raw_salt_round_13 raw_salt_round_14 raw_salt_round_15
  raw_salt_round_16 raw_salt_round_17 raw_salt_round_18 raw_salt_round_19
  raw_salt_round_20 raw_salt_round_21 raw_salt_round_22 raw_salt_round_23

lemma raw_salt_permutation: "keccak_f (raw_salt_trace ! 0) = raw_salt_trace ! 24"
  by (simp only: keccak_f_def round_constants_def foldl.simps raw_salt_rounds)

lemma raw_salt_chunks:
  "chunks 136 (keccak_pad (toUtf8Bytes raw_salt)) = [keccak_pad (toUtf8Bytes raw_salt)]"
  by code_simp

lemma raw_salt_block:
  "map2 (XOR) (replicate 25 0)
     (map lane_of_bytes (chunks 8 (keccak_pad (toUtf8Bytes raw_salt))) @ replicate 8 0)
   = raw_salt_trace ! 0"
  by code_simp

lemma raw_salt_squeeze:
  "take 32 (concat (map bytes_of_lane (raw_salt_trace ! 24))) =
     [0x55, 0x8f, 0x2e, 0xba, 0xc3, 0x18, 0xc8, 0xff,
      0x6b, 0x2c, 0x77, 0xa8, 0xf9, 0xd4, 0xe9, 0x0e,
      0xf4, 0x24, 0x1c, 0x8b, 0x77, 0x2d, 0x8e, 0x53,
      0xcf, 0x06, 0x5e, 0x8a, 0x2a, 0xc4, 0x30, 0x7b]"
  by code_simp

lemma raw_salt_hash:
  "Keccak256 (toUtf8Bytes raw_salt) =
     [0x55, 0x8f, 0x2e, 0xba, 0xc3, 0x18, 0xc8, 0xff,
      0x6b, 0x2c, 0x77, 0xa8, 0xf9, 0xd4, 0xe9, 0x0e,
      0xf4, 0x24, 0x1c, 0x8b, 0x77, 0x2d, 0x8e, 0x53,
      0xcf, 0x06, 0x5e, 0x8a, 0x2a, 0xc4, 0x30, 0x7b]"
  by (simp only: Keccak256_def raw_salt_chunks foldl.simps absorb_def raw_salt_block
      raw_salt_permutation raw_salt_squeeze)

text \<open>Keccak-256 is a hash to 32 bytes: the theorems below hold in \<open>keccak_env\<close>.\<close>

lemma length_iota: "length (iota rc A) = length A"
  by (cases A) (simp_all add: iota_def)

lemma length_keccak_round: "length (keccak_round A rc) = 25"
  by (simp add: keccak_round_def length_iota chi_def)

lemma length_keccak_f: "length (keccak_f A) = 25"
  by (simp add: keccak_f_def round_constants_def length_keccak_round)

lemma length_absorbed: "blocks \<noteq> [] \<Longrightarrow> length (foldl absorb A blocks) = 25"
  by (induction blocks rule: rev_induct) (simp_all add: absorb_def length_keccak_f)

lemma chunks_keccak_pad: "chunks 136 (keccak_pad m) \<noteq> []"
proof -
  have "keccak_pad m \<noteq> []" by (simp add: keccak_pad_def Let_def)
  then show ?thesis by (cases "keccak_pad m") simp_all
qed

lemma length_lane_bytes: "length (concat (map bytes_of_lane A)) = 8 * length A"
  by (induction A) (simp_all add: bytes_of_lane_def)

lemma length_Keccak256: "length (keccak_256 keccak_env m) = 32"
  by (simp add: keccak_env_def Keccak256_def length_lane_bytes
      length_absorbed [OF chunks_keccak_pad])

section \<open>The address computer\<close>

text \<open>
  C1. Where the factory address and the creation bytecode are hexadecimal text and the
  ABI coder encodes the constructor arguments, \<^verbatim>\<open>getCreate2Address\<close> returns the
  hexadecimal text of 20 bytes: the low-order 20 bytes of the hash of the byte 0xff, the
  factory address, the hash of the salt's text, and the hash of the init code, the init
  code being the creation bytecode followed by the encoded constructor arguments. The hash
  is any function to 32 bytes, Keccak-256 among them. The function is a value computed
  from its arguments alone: it reads no events and leaves none.
\<close>

theorem getCreate2Address_low_order_20_bytes:
  assumes "\<And>bs. length (keccak_256 env bs) = 32"
    and "hexBytes (replace_0x factoryAddress) = Some factory"
    and "arrayify contractBytecode = Inr creationCode"
    and "abi_encode env (orDefault [] constructorTypes) (orDefault [] constructorArgs) = Inr encodedArgs"
  shows "getCreate2Address env factoryAddress salt contractBytecode constructorTypes constructorArgs =
           Inr (hexlify (create2_address env factory
                  (keccak_256 env (toUtf8Bytes (salt_toString salt))) (creationCode @ encodedArgs)))
         \<and> length (create2_address env factory
                  (keccak_256 env (toUtf8Bytes (salt_toString salt))) (creationCode @ encodedArgs)) = 20"
  using getCreate2Address_bytes [OF assms] length_create2_address [OF assms(1)] by simp

theorem getCreate2Address_low_order_20_bytes_witness:
  "(\<forall>bs. length (keccak_256 example_env bs) = 32)
   \<and> hexBytes (replace_0x ''0xFFfFfFffFFfffFFfFFfFFFFFffFFFffffFfFFFfF'') = Some (replicate 20 0xff)
   \<and> arrayify ''0x00'' = Inr [0]
   \<and> abi_encode example_env (orDefault [] None) (orDefault [] None) = Inr []
   \<and> getCreate2Address example_env ''0xFFfFfFffFFfffFFfFFfFFFFFffFFFffffFfFFFfF''
        (SaltString ''test'') ''0x00'' None None = Inr ''0xe0e0e0e0e0e0e0e0e0e0e0e0e0e0e0e0e0e0e0e0''"
proof -
  have h1: "\<And>bs. length (keccak_256 example_env bs) = 32"
    by (simp add: example_env_def example_hash_def)
  have h2: "hexBytes (replace_0x ''0xFFfFfFffFFfffFFfFFfFFFFFffFFFffffFfFFFfF'') = Some (replicate 20 0xff)"
    by code_simp
  have h3: "arrayify ''0x00'' = Inr [0]"
    by code_simp
  have h4: "abi_encode example_env (orDefault [] None) (orDefault [] None) = Inr []"
    by code_simp
  have v: "hexlify (create2_address example_env (replicate 20 0xff)
          (keccak_256 example_env (toUtf8Bytes (salt_toString (SaltString ''test'')))) ([0] @ []))
        = ''0xe0e0e0e0e0e0e0e0e0e0e0e0e0e0e0e0e0e0e0e0''"
    by code_simp
  from getCreate2Address_low_order_20_bytes [OF h1 h2 h3 h4, of "SaltString ''test''"]
  have "getCreate2Address example_env ''0xFFfFfFffFFfffFFfFFfFFFFFffFFFffffFfFFFfF''
        (SaltString ''test'') ''0x00'' None None = Inr ''0xe0e0e0e0e0e0e0e0e0e0e0e0e0e0e0e0e0e0e0e0''"
    by (simp only: v)
  with h1 h2 h3 h4 show ?thesis by blast
qed

text \<open>
  C4. The address \<^verbatim>\<open>deployContract\<close> returns is the address \<^verbatim>\<open>getCreate2Address\<close>
  returns for the factory's address and the same salt, bytecode, constructor types and
  constructor arguments.
\<close>

theorem deployContract_address_is_getCreate2Address:
  assumes "deployContract env salt factory contractBytecode constructorTypes constructorArgs evs
             = (Inr d, evs')"
  shows "getCreate2Address env (c_address factory) salt contractBytecode constructorTypes
           constructorArgs = Inr (address d)"
  using deployContract_cases [OF assms] by auto

theorem deployContract_address_is_getCreate2Address_witness:
  "deployContract example_env (SaltString ''test'') example_factory ''0x00'' None None [] =
     (Inr \<lparr>address = ''0xe0e0e0e0e0e0e0e0e0e0e0e0e0e0e0e0e0e0e0e0'', txHash = ''0xtx0'',
           deployTransaction = \<lparr>hash = ''0xtx0''\<rparr>\<rparr>,
      [FactoryDeploy example_factory ''0x00''
         ''0xc4c4c4c4c4c4c4c4c4c4c4c4c4c4c4c4c4c4c4c4c4c4c4c4c4c4c4c4c4c4c4c4'' \<lparr>hash = ''0xtx0''\<rparr>])
   \<and> getCreate2Address example_env (c_address example_factory) (SaltString ''test'') ''0x00''
         None None = Inr ''0xe0e0e0e0e0e0e0e0e0e0e0e0e0e0e0e0e0e0e0e0''"
proof -
  have run: "deployContract example_env (SaltString ''test'') example_factory ''0x00'' None None [] =
     (Inr \<lparr>address = ''0xe0e0e0e0e0e0e0e0e0e0e0e0e0e0e0e0e0e0e0e0'', txHash = ''0xtx0'',
           deployTransaction = \<lparr>hash = ''0xtx0''\<rparr>\<rparr>,
      [FactoryDeploy example_factory ''0x00''
         ''0xc4c4c4c4c4c4c4c4c4c4c4c4c4c4c4c4c4c4c4c4c4c4c4c4c4c4c4c4c4c4c4c4'' \<lparr>hash = ''0xtx0''\<rparr>])"
    by code_simp
  from deployContract_address_is_getCreate2Address [OF run] run show ?thesis by simp
qed

text \<open>
  C8, as the code has it. Every salt, a string or a number, is replaced by the hash of the
  UTF-8 bytes of its string representation (32 bytes for a 32-byte hash), and that hash is
  the salt of the address computation. A string that spells a raw 32-byte value is a
  string like any other: it is hashed, not used as it is.
\<close>

theorem saltToHex_always_hashes:
  assumes "\<And>bs. length (keccak_256 env bs) = 32"
  shows "arrayify (saltToHex env salt) = Inr (keccak_256 env (toUtf8Bytes (salt_toString salt)))
         \<and> length (keccak_256 env (toUtf8Bytes (salt_toString salt))) = 32
         \<and> getCreate2Address env factoryAddress salt contractBytecode constructorTypes constructorArgs =
             (case buildBytecode env (orDefault [] constructorTypes) (orDefault [] constructorArgs)
                     contractBytecode of
                Inl e \<Rightarrow> Inl e
              | Inr byteCode \<Rightarrow>
                  buildCreate2Address env factoryAddress
                    (hexlify (keccak_256 env (toUtf8Bytes (salt_toString salt)))) byteCode)"
  using assms
  by (simp add: saltToHex_def ethers_id_def arrayify_hexlify getCreate2Address_def)

theorem saltToHex_always_hashes_witness:
  "(\<forall>bs. length (keccak_256 example_env bs) = 32)
   \<and> arrayify (saltToHex example_env (SaltNumber 42)) = Inr (replicate 32 0x68)
   \<and> (\<forall>bs. length (keccak_256 keccak_env bs) = 32)
   \<and> arrayify (saltToHex keccak_env (SaltString raw_salt)) =
       Inr [0x55, 0x8f, 0x2e, 0xba, 0xc3, 0x18, 0xc8, 0xff,
           0x6b, 0x2c, 0x77, 0xa8, 0xf9, 0xd4, 0xe9, 0x0e,
           0xf4, 0x24, 0x1c, 0x8b, 0x77, 0x2d, 0x8e, 0x53,
           0xcf, 0x06, 0x5e, 0x8a, 0x2a, 0xc4, 0x30, 0x7b]"
proof -
  have h: "\<And>bs. length (keccak_256 example_env bs) = 32"
    by (simp add: example_env_def example_hash_def)
  have v: "keccak_256 example_env (toUtf8Bytes (salt_toString (SaltNumber 42))) = replicate 32 0x68"
    by code_simp
  from saltToHex_always_hashes [OF h, of "SaltNumber 42"]
  have a: "arrayify (saltToHex example_env (SaltNumber 42)) = Inr (replicate 32 0x68)"
    by (simp only: v)
  have k: "\<And>bs. length (keccak_256 keccak_env bs) = 32"
    by (rule length_Keccak256)
  have w: "keccak_256 keccak_env (toUtf8Bytes (salt_toString (SaltString raw_salt))) =
       [0x55, 0x8f, 0x2e, 0xba, 0xc3, 0x18, 0xc8, 0xff,
           0x6b, 0x2c, 0x77, 0xa8, 0xf9, 0xd4, 0xe9, 0x0e,
           0xf4, 0x24, 0x1c, 0x8b, 0x77, 0x2d, 0x8e, 0x53,
           0xcf, 0x06, 0x5e, 0x8a, 0x2a, 0xc4, 0x30, 0x7b]"
    by (simp add: keccak_env_def raw_salt_hash)
  from saltToHex_always_hashes [OF k, of "SaltString raw_salt"]
  have b: "arrayify (saltToHex keccak_env (SaltString raw_salt)) =
       Inr [0x55, 0x8f, 0x2e, 0xba, 0xc3, 0x18, 0xc8, 0xff,
           0x6b, 0x2c, 0x77, 0xa8, 0xf9, 0xd4, 0xe9, 0x0e,
           0xf4, 0x24, 0x1c, 0x8b, 0x77, 0x2d, 0x8e, 0x53,
           0xcf, 0x06, 0x5e, 0x8a, 0x2a, 0xc4, 0x30, 0x7b]"
    by (simp only: w)
  from h a k b show ?thesis by blast
qed

text \<open>
  The claim as the specification words it fails at a raw 32-byte value. The string
  \<open>raw_salt\<close> spells the 32 bytes 0xab ... 0xab in lower case, as \<^verbatim>\<open>hexlify\<close> prints
  them. With Keccak-256 the salt used is the hash of the 66 characters of that string: not
  the string, and not its 32 bytes.
\<close>

theorem saltToHex_raw_value_counterexample:
  "arrayify raw_salt = Inr (replicate 32 0xab)
   \<and> hexlify (replicate 32 0xab) = raw_salt
   \<and> saltToHex keccak_env (SaltString raw_salt)
       = ''0x558f2ebac318c8ff6b2c77a8f9d4e90ef4241c8b772d8e53cf065e8a2ac4307b''
   \<and> arrayify (saltToHex keccak_env (SaltString raw_salt)) =
       Inr [0x55, 0x8f, 0x2e, 0xba, 0xc3, 0x18, 0xc8, 0xff,
           0x6b, 0x2c, 0x77, 0xa8, 0xf9, 0xd4, 0xe9, 0x0e,
           0xf4, 0x24, 0x1c, 0x8b, 0x77, 0x2d, 0x8e, 0x53,
           0xcf, 0x06, 0x5e, 0x8a, 0x2a, 0xc4, 0x30, 0x7b]
   \<and> saltToHex keccak_env (SaltString raw_salt) \<noteq> raw_salt
   \<and> arrayify (saltToHex keccak_env (SaltString raw_salt)) \<noteq> arrayify raw_salt"
proof -
  have raw: "arrayify raw_salt = Inr (replicate 32 0xab)"
    by code_simp
  have spelt: "hexlify (replicate 32 0xab) = raw_salt"
    by code_simp
  have "saltToHex keccak_env (SaltString raw_salt) =
          hexlify
            [0x55, 0x8f, 0x2e, 0xba, 0xc3, 0x18, 0xc8, 0xff,
             0x6b, 0x2c, 0x77, 0xa8, 0xf9, 0xd4, 0xe9, 0x0e,
             0xf4, 0x24, 0x1c, 0x8b, 0x77, 0x2d, 0x8e, 0x53,
             0xcf, 0x06, 0x5e, 0x8a, 0x2a, 0xc4, 0x30, 0x7b]"
    by (simp add: saltToHex_def ethers_id_def keccak_env_def raw_salt_hash)
  also have "\<dots> = ''0x558f2ebac318c8ff6b2c77a8f9d4e90ef4241c8b772d8e53cf065e8a2ac4307b''"
    by code_simp
  finally have used: "saltToHex keccak_env (SaltString raw_salt)
       = ''0x558f2ebac318c8ff6b2c77a8f9d4e90ef4241c8b772d8e53cf065e8a2ac4307b''" .
  have bytes: "arrayify ''0x558f2ebac318c8ff6b2c77a8f9d4e90ef4241c8b772d8e53cf065e8a2ac4307b'' =
       Inr [0x55, 0x8f, 0x2e, 0xba, 0xc3, 0x18, 0xc8, 0xff,
           0x6b, 0x2c, 0x77, 0xa8, 0xf9, 0xd4, 0xe9, 0x0e,
           0xf4, 0x24, 0x1c, 0x8b, 0x77, 0x2d, 0x8e, 0x53,
           0xcf, 0x06, 0x5e, 0x8a, 0x2a, 0xc4, 0x30, 0x7b]"
    by code_simp
  have differ: "''0x558f2ebac318c8ff6b2c77a8f9d4e90ef4241c8b772d8e53cf065e8a2ac4307b'' \<noteq> raw_salt"
    by code_simp
  have differ_bytes: "arrayify ''0x558f2ebac318c8ff6b2c77a8f9d4e90ef4241c8b772d8e53cf065e8a2ac4307b'' \<noteq> arrayify raw_salt"
    by code_simp
  show ?thesis
    using raw spelt used bytes differ differ_bytes by (simp only: simp_thms)
qed

section \<open>The orchestrator\<close>

text \<open>
  C9. A second argument \<open>x\<close> that is not an array is the options, and the argument list
  is empty: the arguments are normalised to the empty list and \<open>x\<close>, as those of the call
  with an empty list in second place and \<open>x\<close> in third place are; the call is the
  deployment with \<open>x\<close> for its options (the implementation is resolved under \<open>x\<close>, the
  initializer is the one \<open>x\<close> names, the proxy is created under \<open>x\<close>) and the empty list
  for the initializer's arguments; and so it is the same call as the one with the empty
  list and \<open>x\<close>. The call with no second argument is the call with an empty argument list.
\<close>

theorem deployProxy_second_argument_options:
  "deployProxy env ImplFactory (Some (ArgsOptions x)) None =
     deployProxy env ImplFactory (Some (ArgsArray [])) (Some x)
   \<and> deployProxy env ImplFactory None None = deployProxy env ImplFactory (Some (ArgsArray [])) None
   \<and> normalizeArgs (Some (ArgsOptions x)) None = ([], x)
   \<and> normalizeArgs (Some (ArgsArray [])) (Some x) = ([], x)
   \<and> deployProxy env ImplFactory (Some (ArgsOptions x)) None =
       bindR (awaitR (manifest_forNetwork env) (\<lambda>_. ManifestForNetwork)) (\<lambda>_.
       bindR (resolveImpl env ImplFactory x) (\<lambda>(impl, k).
       bindR (liftR (getInitializerData env (interface ImplFactory) [] (initializer x)))
         (\<lambda>data.
       bindR (adminWarning env k) (\<lambda>_.
       bindR (proxyFactoryArgs env ImplFactory k impl data)
         (\<lambda>(ProxyFactory, proxyArgs, proxyArgTypes).
       bindR (submitProxy env x k ProxyFactory proxyArgs proxyArgTypes)
         (\<lambda>proxyDeployment.
       bindR (awaitR (\<lambda>evs. manifest_addProxy env evs proxyDeployment)
                     (\<lambda>_. AddProxy proxyDeployment)) (\<lambda>_.
       returnR (attach ImplFactory proxyDeployment))))))))"
  by (simp add: deployProxy_def normalizeArgs_def orDefault_def)

text \<open>
  C3, as the code has it. A call that returns a contract has appended exactly one
  ProxyDeployment, as its last step and directly after the submission of the proxy's
  creation resolved (\<^verbatim>\<open>factory.deploy\<close> on the deterministic path, \<^verbatim>\<open>deploy\<close>
  otherwise): the proxy's transaction is not waited for before the append. A call that
  fails, at whatever step, has appended no ProxyDeployment.
\<close>

theorem deployProxy_appends_last:
  assumes "deployProxy env ImplFactory args0 opts0 evs = (r, evs')"
  shows "\<exists>new. evs' = evs @ new \<and>
           (case r of
              Inl e \<Rightarrow> filter isAddProxy new = []
            | Inr c \<Rightarrow>
                (\<exists>p. last new = AddProxy p \<and> filter isAddProxy new = [AddProxy p]
                   \<and> submits (last (butlast new)) p
                   \<and> inst_address c = address p
                   \<and> inst_deployTransaction c = deployTransaction p))"
proof -
  obtain args opts where n: "normalizeArgs args0 opts0 = (args, opts)"
    by (cases "normalizeArgs args0 opts0")
  show ?thesis
    using assms unfolding deployProxy_def n
    by (auto simp: run_eqs attach_def event_classes split: sum.splits
             dest!: resolveImpl_events adminWarning_events proxyFactoryArgs_events
                    submitProxy_events)
qed

theorem deployProxy_appends_last_witness:
  "fst (deployProxy example_env example_impl (Some (ArgsArray [])) (Some (example_opts None)) [])
     = Inr \<lparr>inst_address = ''0xc0c0c0c0c0c0c0c0c0c0c0c0c0c0c0c0c0c0c0c0'', inst_interface = ''Box'',
             inst_signer = ''deployer'', inst_deployTransaction = \<lparr>hash = ''0xtx3''\<rparr>\<rparr>
   \<and> (\<exists>new. snd (deployProxy example_env example_impl (Some (ArgsArray []))
                   (Some (example_opts None)) []) = [] @ new
          \<and> (\<exists>p. last new = AddProxy p \<and> filter isAddProxy new = [AddProxy p]
                 \<and> submits (last (butlast new)) p
                 \<and> address p = ''0xc0c0c0c0c0c0c0c0c0c0c0c0c0c0c0c0c0c0c0c0''
                 \<and> deployTransaction p = \<lparr>hash = ''0xtx3''\<rparr>))"
  using deployProxy_appends_last [OF example_uups_run] by (auto simp: example_uups_run)

text \<open>
  The claim as the specification words it fails on the deterministic path: the proxy's
  transaction \<^verbatim>\<open>0xtx3\<close> is submitted and the ProxyDeployment is appended at once, and no
  wait for \<^verbatim>\<open>0xtx3\<close> has happened (the implementation's \<^verbatim>\<open>0xtx1\<close> was waited for).
  And a call that fails at the proxy's submission fails after
  \<^verbatim>\<open>fetchOrDeployAdmin\<close> has resolved.
\<close>

theorem deployProxy_appends_unconfirmed_counterexample:
  "snd (deployProxy example_env example_impl (Some (ArgsArray [])) (Some (example_opts None)) [])
     = [ManifestForNetwork,
        FactoryDeploy example_factory ''0x00'' example_saltHex \<lparr>hash = ''0xtx1''\<rparr>,
        TxWait \<lparr>hash = ''0xtx1''\<rparr>,
        FactoryDeploy example_factory example_uups_initCode example_saltHex \<lparr>hash = ''0xtx3''\<rparr>,
        AddProxy \<lparr>address = ''0xc0c0c0c0c0c0c0c0c0c0c0c0c0c0c0c0c0c0c0c0'', txHash = ''0xtx3'',
                  deployTransaction = \<lparr>hash = ''0xtx3''\<rparr>, proxyKind = Uups\<rparr>]
   \<and> TxWait \<lparr>hash = ''0xtx3''\<rparr>
       \<notin> set (snd (deployProxy example_env example_impl (Some (ArgsArray []))
                      (Some (example_opts None)) []))
   \<and> deployProxy failing_env example_impl (Some (ArgsArray []))
        (Some (example_opts (Some Transparent))) [] =
       (Inl (Rejected ''execution reverted''),
        [ManifestForNetwork,
         FactoryDeploy example_factory ''0x00'' example_saltHex \<lparr>hash = ''0xtx1''\<rparr>,
         TxWait \<lparr>hash = ''0xtx1''\<rparr>,
         FetchOrDeployAdmin
           \<lparr>bytecode = ''0x6082'', interface = ''ProxyAdmin'', signer = ''deployer''\<rparr>
           ''0x2222222222222222222222222222222222222222''])"
  by (simp add: example_uups_run example_failing_run)

text \<open>
  C2, as the code has it. The error is thrown by the switch on the kind, which stands
  after the resolution of the implementation.
  \<^item> A call with \<^verbatim>\<open>kind: 'beacon'\<close> and the deterministic options never returns a
    contract, and leaves at most the events of the implementation: no proxy is submitted
    and nothing is appended. When the steps before the switch succeed, it fails with
    \<^verbatim>\<open>BeaconProxyUnsupportedError\<close>, after the implementation's creation transaction has
    been submitted through the factory and waited for.
  \<^item> On either path, a call whose kind resolves to beacon never returns a contract and
    leaves no event after the resolution of the implementation; it fails with
    \<^verbatim>\<open>BeaconProxyUnsupportedError\<close> when the initializer data can be encoded.
\<close>

theorem deployProxy_beacon_unsupported:
  "(normalizeArgs a b = (args, opts) \<and> kind opts = Some Beacon
      \<and> deployFactory opts = Some factory \<and> deployFactorySalt opts = Some salt
      \<and> deployProxy env ImplFactory a b evs = (r, evs')
    \<longrightarrow> (\<exists>e. r = Inl e)
        \<and> (evs' = evs \<or> evs' = evs @ [ManifestForNetwork]
            \<or> (\<exists>code t. evs' = evs @ [ManifestForNetwork,
                                         FactoryDeploy factory code (saltToHex env salt) t]
                  \<or> evs' = evs @ [ManifestForNetwork,
                                   FactoryDeploy factory code (saltToHex env salt) t, TxWait t]))
        \<and> (\<forall>code t data.
              manifest_forNetwork env evs = Inr ()
              \<and> buildBytecode env [] [] (bytecode ImplFactory) = Inr code
              \<and> getCreate2Address env (c_address factory) salt (bytecode ImplFactory)
                    (Some []) (Some []) = Inr impl
              \<and> factory_deploy env (evs @ [ManifestForNetwork]) factory code (saltToHex env salt)
                    = Inr t
              \<and> tx_wait env (evs @ [ManifestForNetwork,
                                     FactoryDeploy factory code (saltToHex env salt) t]) t = Inr ()
              \<and> getInitializerData env (interface ImplFactory) args (initializer opts) = Inr data
              \<longrightarrow> r = Inl BeaconProxyUnsupportedError
                  \<and> evs' = evs @ [ManifestForNetwork,
                                  FactoryDeploy factory code (saltToHex env salt) t, TxWait t]))
   \<and> (normalizeArgs a b = (args, opts) \<and> manifest_forNetwork env evs = Inr ()
      \<and> resolveImpl env ImplFactory opts (evs @ [ManifestForNetwork]) = (Inr (impl, Beacon), evsI)
      \<and> deployProxy env ImplFactory a b evs = (r, evs')
    \<longrightarrow> (\<exists>e. r = Inl e) \<and> evs' = evsI
        \<and> (\<forall>data. getInitializerData env (interface ImplFactory) args (initializer opts) = Inr data
              \<longrightarrow> r = Inl BeaconProxyUnsupportedError))"
proof (intro conjI impI; elim conjE)
  assume n: "normalizeArgs a b = (args, opts)" and k: "kind opts = Some Beacon"
    and f: "deployFactory opts = Some factory" and s: "deployFactorySalt opts = Some salt"
    and run: "deployProxy env ImplFactory a b evs = (r, evs')"
  show "\<exists>e. r = Inl e"
    using run unfolding deployProxy_def n
    by (auto simp: run_eqs proxyFactoryArgs_def adminWarning_def orDefault_def k
             dest!: resolveImpl_deterministic [OF f s])
  show "evs' = evs \<or> evs' = evs @ [ManifestForNetwork]
        \<or> (\<exists>code t. evs' = evs @ [ManifestForNetwork,
                                     FactoryDeploy factory code (saltToHex env salt) t]
              \<or> evs' = evs @ [ManifestForNetwork,
                               FactoryDeploy factory code (saltToHex env salt) t, TxWait t])"
    using run unfolding deployProxy_def n
    by (auto simp: run_eqs proxyFactoryArgs_def adminWarning_def orDefault_def k f s
                   resolveImpl_def deployContract_def Let_def)
  show "\<forall>code t data.
          manifest_forNetwork env evs = Inr ()
          \<and> buildBytecode env [] [] (bytecode ImplFactory) = Inr code
          \<and> getCreate2Address env (c_address factory) salt (bytecode ImplFactory)
                (Some []) (Some []) = Inr impl
          \<and> factory_deploy env (evs @ [ManifestForNetwork]) factory code (saltToHex env salt)
                = Inr t
          \<and> tx_wait env (evs @ [ManifestForNetwork,
                                 FactoryDeploy factory code (saltToHex env salt) t]) t = Inr ()
          \<and> getInitializerData env (interface ImplFactory) args (initializer opts) = Inr data
          \<longrightarrow> r = Inl BeaconProxyUnsupportedError
              \<and> evs' = evs @ [ManifestForNetwork,
                              FactoryDeploy factory code (saltToHex env salt) t, TxWait t]"
    using run unfolding deployProxy_def n
    by (auto simp: run_defs proxyFactoryArgs_def adminWarning_def orDefault_def k f s
                   resolveImpl_def deployContract_def Let_def)
next
  assume n: "normalizeArgs a b = (args, opts)"
    and m: "manifest_forNetwork env evs = Inr ()"
    and res: "resolveImpl env ImplFactory opts (evs @ [ManifestForNetwork]) = (Inr (impl, Beacon), evsI)"
    and run: "deployProxy env ImplFactory a b evs = (r, evs')"
  show "\<exists>e. r = Inl e"
    using run unfolding deployProxy_def n
    by (auto simp: run_eqs m res proxyFactoryArgs_def adminWarning_def)
  show "evs' = evsI"
    using run unfolding deployProxy_def n
    by (auto simp: run_eqs m res proxyFactoryArgs_def adminWarning_def)
  show "\<forall>data. getInitializerData env (interface ImplFactory) args (initializer opts) = Inr data
          \<longrightarrow> r = Inl BeaconProxyUnsupportedError"
    using run unfolding deployProxy_def n
    by (auto simp: run_eqs m res proxyFactoryArgs_def adminWarning_def)
qed

theorem deployProxy_beacon_unsupported_witness:
  "normalizeArgs (Some (ArgsArray [])) (Some (example_opts (Some Beacon)))
     = ([], example_opts (Some Beacon))
   \<and> kind (example_opts (Some Beacon)) = Some Beacon
   \<and> deployFactory (example_opts (Some Beacon)) = Some example_factory
   \<and> deployFactorySalt (example_opts (Some Beacon)) = Some (SaltString ''test'')
   \<and> manifest_forNetwork example_env [] = Inr ()
   \<and> buildBytecode example_env [] [] (bytecode example_impl) = Inr ''0x00''
   \<and> getCreate2Address example_env (c_address example_factory) (SaltString ''test'')
         (bytecode example_impl) (Some []) (Some [])
       = Inr ''0xe0e0e0e0e0e0e0e0e0e0e0e0e0e0e0e0e0e0e0e0''
   \<and> factory_deploy example_env ([] @ [ManifestForNetwork]) example_factory ''0x00''
         (saltToHex example_env (SaltString ''test'')) = Inr \<lparr>hash = ''0xtx1''\<rparr>
   \<and> tx_wait example_env
         ([] @ [ManifestForNetwork,
                FactoryDeploy example_factory ''0x00''
                  (saltToHex example_env (SaltString ''test'')) \<lparr>hash = ''0xtx1''\<rparr>])
         \<lparr>hash = ''0xtx1''\<rparr> = Inr ()
   \<and> getInitializerData example_env (interface example_impl) []
         (initializer (example_opts (Some Beacon))) = Inr ''0x8129fc1c''
   \<and> deployProxy example_env example_impl (Some (ArgsArray []))
         (Some (example_opts (Some Beacon))) []
       = (Inl BeaconProxyUnsupportedError,
          [] @ [ManifestForNetwork,
                FactoryDeploy example_factory ''0x00''
                  (saltToHex example_env (SaltString ''test'')) \<lparr>hash = ''0xtx1''\<rparr>,
                TxWait \<lparr>hash = ''0xtx1''\<rparr>])
   \<and> normalizeArgs (Some (ArgsOptions (example_plain_opts (Some Beacon)))) None
       = ([], example_plain_opts (Some Beacon))
   \<and> resolveImpl example_env example_impl (example_plain_opts (Some Beacon))
         ([] @ [ManifestForNetwork])
       = (Inr (''0x1111111111111111111111111111111111111111'', Beacon),
          [ManifestForNetwork,
           DeployProxyImpl example_impl (example_plain_opts (Some Beacon))
             ''0x1111111111111111111111111111111111111111'' Beacon])
   \<and> getInitializerData example_env (interface example_impl) []
         (initializer (example_plain_opts (Some Beacon))) = Inr ''0x8129fc1c''
   \<and> deployProxy example_env example_impl
         (Some (ArgsOptions (example_plain_opts (Some Beacon)))) None []
       = (Inl BeaconProxyUnsupportedError,
          [ManifestForNetwork,
           DeployProxyImpl example_impl (example_plain_opts (Some Beacon))
             ''0x1111111111111111111111111111111111111111'' Beacon])"
proof -
  let ?o = "example_opts (Some Beacon)" and ?p = "example_plain_opts (Some Beacon)"
  let ?fd = "FactoryDeploy example_factory ''0x00''
               (saltToHex example_env (SaltString ''test'')) \<lparr>hash = ''0xtx1''\<rparr>"
  have a1: "normalizeArgs (Some (ArgsArray [])) (Some ?o) = ([], ?o)"
    by (simp add: normalizeArgs_def orDefault_def)
  have a2: "kind ?o = Some Beacon" "deployFactory ?o = Some example_factory"
    "deployFactorySalt ?o = Some (SaltString ''test'')"
    by (simp_all add: example_opts_def)
  have a3: "manifest_forNetwork example_env [] = Inr ()"
    by (simp add: example_env_def)
  have a4: "buildBytecode example_env [] [] (bytecode example_impl) = Inr ''0x00''"
    by code_simp
  have a5: "getCreate2Address example_env (c_address example_factory) (SaltString ''test'')
         (bytecode example_impl) (Some []) (Some [])
       = Inr ''0xe0e0e0e0e0e0e0e0e0e0e0e0e0e0e0e0e0e0e0e0''"
    by code_simp
  have a6: "factory_deploy example_env ([] @ [ManifestForNetwork]) example_factory ''0x00''
         (saltToHex example_env (SaltString ''test'')) = Inr \<lparr>hash = ''0xtx1''\<rparr>"
    by code_simp
  have a7: "tx_wait example_env ([] @ [ManifestForNetwork, ?fd]) \<lparr>hash = ''0xtx1''\<rparr> = Inr ()"
    by (simp add: example_env_def)
  have a8: "getInitializerData example_env (interface example_impl) [] (initializer ?o)
              = Inr ''0x8129fc1c''"
    "getInitializerData example_env (interface example_impl) [] (initializer ?p)
              = Inr ''0x8129fc1c''"
    by (simp_all add: example_env_def)
  have salt: "saltToHex example_env (SaltString ''test'') = example_saltHex"
    by code_simp
  have run: "deployProxy example_env example_impl (Some (ArgsArray [])) (Some ?o) []
       = (Inl BeaconProxyUnsupportedError, [] @ [ManifestForNetwork, ?fd, TxWait \<lparr>hash = ''0xtx1''\<rparr>])"
    by (simp add: example_beacon_run salt)
  have b1: "normalizeArgs (Some (ArgsOptions ?p)) None = ([], ?p)"
    by (simp add: normalizeArgs_def orDefault_def)
  have b2: "resolveImpl example_env example_impl ?p ([] @ [ManifestForNetwork])
       = (Inr (''0x1111111111111111111111111111111111111111'', Beacon),
          [ManifestForNetwork,
           DeployProxyImpl example_impl ?p ''0x1111111111111111111111111111111111111111'' Beacon])"
    by code_simp
  obtain r evs' where run2: "deployProxy example_env example_impl (Some (ArgsOptions ?p)) None []
       = (r, evs')"
    by (cases "deployProxy example_env example_impl (Some (ArgsOptions ?p)) None []")
  from deployProxy_beacon_unsupported
    [where a = "Some (ArgsOptions ?p)" and b = None and args = "[]" and opts = ?p
       and env = example_env and ImplFactory = example_impl and evs = "[]" and r = r
       and evs' = evs' and impl = "''0x1111111111111111111111111111111111111111''"
       and evsI = "[ManifestForNetwork,
           DeployProxyImpl example_impl ?p ''0x1111111111111111111111111111111111111111'' Beacon]"]
    b1 a3 b2 run2 a8(2)
  have "r = Inl BeaconProxyUnsupportedError \<and> evs' = [ManifestForNetwork,
           DeployProxyImpl example_impl ?p ''0x1111111111111111111111111111111111111111'' Beacon]"
    by simp
  with run2 have run3: "deployProxy example_env example_impl (Some (ArgsOptions ?p)) None []
       = (Inl BeaconProxyUnsupportedError,
          [ManifestForNetwork,
           DeployProxyImpl example_impl ?p ''0x1111111111111111111111111111111111111111'' Beacon])"
    by simp
  show ?thesis
    using a1 a2 a3 a4 a5 a6 a7 a8 run b1 b2 run3 by (intro conjI)
qed

text \<open>
  The claim as the specification words it fails on the deterministic path: with
  \<^verbatim>\<open>kind: 'beacon'\<close> the error comes after the implementation's transaction was
  submitted and waited for; and where the factory rejects that transaction, the call
  fails with the rejection, not with \<^verbatim>\<open>BeaconProxyUnsupportedError\<close>.
\<close>

theorem deployProxy_beacon_before_network_counterexample:
  "kind (example_opts (Some Beacon)) = Some Beacon
   \<and> deployProxy example_env example_impl (Some (ArgsArray []))
        (Some (example_opts (Some Beacon))) []
       = (Inl BeaconProxyUnsupportedError,
          [ManifestForNetwork,
           FactoryDeploy example_factory ''0x00'' example_saltHex \<lparr>hash = ''0xtx1''\<rparr>,
           TxWait \<lparr>hash = ''0xtx1''\<rparr>])
   \<and> deployProxy reverting_env example_impl (Some (ArgsArray []))
        (Some (example_opts (Some Beacon))) []
       = (Inl (Rejected ''execution reverted''), [ManifestForNetwork])"
proof -
  have "deployProxy reverting_env example_impl (Some (ArgsArray []))
        (Some (example_opts (Some Beacon))) []
       = (Inl (Rejected ''execution reverted''), [ManifestForNetwork])"
    by code_simp
  moreover have "kind (example_opts (Some Beacon)) = Some Beacon"
    by (simp add: example_opts_def)
  ultimately show ?thesis
    using example_beacon_run by (intro conjI)
qed

text \<open>
  C6. With both deterministic options and no \<^verbatim>\<open>kind\<close>, the kind resolves to uups.
  With either deterministic option missing and no \<^verbatim>\<open>kind\<close>, the kind is the one
  \<^verbatim>\<open>deployProxyImpl\<close> answers, transparent where that collaborator is as the
  specification describes it. The kind that is resolved is the kind of the
  ProxyDeployment a successful call appends.
\<close>

theorem resolveImpl_kind_defaults:
  "(deployFactory opts = Some factory \<and> deployFactorySalt opts = Some salt \<and> kind opts = None
      \<and> resolveImpl env ImplFactory opts evs = (Inr (impl, k), evs')
    \<longrightarrow> k = Uups)
   \<and> ((deployFactory opts = None \<or> deployFactorySalt opts = None) \<and> kind opts = None
      \<and> deployProxyImpl env = deployProxyImpl_spec resolve
      \<and> resolveImpl env ImplFactory opts evs = (Inr (impl, k), evs')
    \<longrightarrow> k = Transparent)
   \<and> (normalizeArgs a b = (args, opts) \<and> manifest_forNetwork env evs = Inr ()
      \<and> resolveImpl env ImplFactory opts (evs @ [ManifestForNetwork]) = (Inr (impl, k), evsI)
      \<and> deployProxy env ImplFactory a b evs = (Inr c, evsP)
    \<longrightarrow> (\<exists>p. last evsP = AddProxy p \<and> proxyKind p = k))"
proof (intro conjI impI; elim conjE)
  assume "deployFactory opts = Some factory" and "deployFactorySalt opts = Some salt"
    and "kind opts = None" and "resolveImpl env ImplFactory opts evs = (Inr (impl, k), evs')"
  then show "k = Uups"
    using resolveImpl_deterministic [of opts factory salt env ImplFactory evs impl k evs']
    by (simp add: orDefault_def)
next
  assume "deployFactory opts = None \<or> deployFactorySalt opts = None" and "kind opts = None"
    and "deployProxyImpl env = deployProxyImpl_spec resolve"
    and "resolveImpl env ImplFactory opts evs = (Inr (impl, k), evs')"
  then show "k = Transparent"
    using resolveImpl_ordinary [of opts env ImplFactory evs impl k evs']
    by (auto simp: deployProxyImpl_spec_def orDefault_def split: sum.splits)
next
  assume n: "normalizeArgs a b = (args, opts)" and m: "manifest_forNetwork env evs = Inr ()"
    and res: "resolveImpl env ImplFactory opts (evs @ [ManifestForNetwork]) = (Inr (impl, k), evsI)"
    and run: "deployProxy env ImplFactory a b evs = (Inr c, evsP)"
  show "\<exists>p. last evsP = AddProxy p \<and> proxyKind p = k"
    using run unfolding deployProxy_def n
    by (auto simp: run_eqs m res dest!: submitProxy_events)
qed

theorem resolveImpl_kind_defaults_witness:
  "deployFactory (example_opts None) = Some example_factory
   \<and> deployFactorySalt (example_opts None) = Some (SaltString ''test'')
   \<and> kind (example_opts None) = None
   \<and> resolveImpl example_env example_impl (example_opts None) ([] @ [ManifestForNetwork])
       = (Inr (''0xe0e0e0e0e0e0e0e0e0e0e0e0e0e0e0e0e0e0e0e0'', Uups),
          [ManifestForNetwork,
           FactoryDeploy example_factory ''0x00'' example_saltHex \<lparr>hash = ''0xtx1''\<rparr>,
           TxWait \<lparr>hash = ''0xtx1''\<rparr>])
   \<and> (deployFactory (example_plain_opts None) = None
        \<or> deployFactorySalt (example_plain_opts None) = None)
   \<and> kind (example_plain_opts None) = None
   \<and> deployProxyImpl example_env
       = deployProxyImpl_spec (\<lambda>evs f opts. Inr ''0x1111111111111111111111111111111111111111'')
   \<and> resolveImpl example_env example_impl (example_plain_opts None) []
       = (Inr (''0x1111111111111111111111111111111111111111'', Transparent),
          [DeployProxyImpl example_impl (example_plain_opts None)
             ''0x1111111111111111111111111111111111111111'' Transparent])
   \<and> normalizeArgs (Some (ArgsArray [])) (Some (example_opts None)) = ([], example_opts None)
   \<and> manifest_forNetwork example_env [] = Inr ()
   \<and> (\<exists>p. last (snd (deployProxy example_env example_impl (Some (ArgsArray []))
                         (Some (example_opts None)) [])) = AddProxy p
          \<and> proxyKind p = Uups)"
proof -
  let ?o = "example_opts None" and ?p = "example_plain_opts None"
  let ?evs = "[ManifestForNetwork,
           FactoryDeploy example_factory ''0x00'' example_saltHex \<lparr>hash = ''0xtx1''\<rparr>,
           TxWait \<lparr>hash = ''0xtx1''\<rparr>]"
  have a: "deployFactory ?o = Some example_factory"
    "deployFactorySalt ?o = Some (SaltString ''test'')" "kind ?o = None"
    by (simp_all add: example_opts_def)
  obtain k where res: "resolveImpl example_env example_impl ?o ([] @ [ManifestForNetwork])
       = (Inr (''0xe0e0e0e0e0e0e0e0e0e0e0e0e0e0e0e0e0e0e0e0'', k), ?evs)"
    using example_resolve_run [of None] by simp
  have b: "deployFactory ?p = None \<or> deployFactorySalt ?p = None" "kind ?p = None"
    by (simp_all add: example_plain_opts_def)
  have spec: "deployProxyImpl example_env
       = deployProxyImpl_spec (\<lambda>evs f opts. Inr ''0x1111111111111111111111111111111111111111'')"
    by (simp add: example_env_def deployProxyImpl_spec_def fun_eq_iff)
  obtain i j evs where res2: "resolveImpl example_env example_impl ?p [] = (Inr (i, j), evs)"
    and i: "i = ''0x1111111111111111111111111111111111111111''"
    and evs: "evs = [DeployProxyImpl example_impl ?p i Transparent]"
    by (simp add: resolveImpl_def run_defs example_plain_opts_def example_env_def orDefault_def)
  have n: "normalizeArgs (Some (ArgsArray [])) (Some ?o) = ([], ?o)"
    by (simp add: normalizeArgs_def orDefault_def)
  have m: "manifest_forNetwork example_env [] = Inr ()"
    by (simp add: example_env_def)
  note T = resolveImpl_kind_defaults
  have k: "k = Uups"
    using T [where opts = ?o and factory = example_factory and salt = "SaltString ''test''"
               and env = example_env and ImplFactory = example_impl
               and evs = "[] @ [ManifestForNetwork]" and k = k and evs' = ?evs
               and impl = "''0xe0e0e0e0e0e0e0e0e0e0e0e0e0e0e0e0e0e0e0e0''"] a res
    by blast
  have j: "j = Transparent"
    using T [where opts = ?p and env = example_env and ImplFactory = example_impl
               and evs = "[]" and k = j and evs' = evs and impl = i
               and resolve = "\<lambda>evs f opts. Inr ''0x1111111111111111111111111111111111111111''"]
      b spec res2
    by blast
  have l: "\<exists>p. last (snd (deployProxy example_env example_impl (Some (ArgsArray []))
                         (Some ?o) [])) = AddProxy p \<and> proxyKind p = Uups"
    using T [where opts = ?o and env = example_env and ImplFactory = example_impl
               and evs = "[]" and k = Uups and evsI = ?evs and a = "Some (ArgsArray [])"
               and b = "Some ?o" and args = "[]"
               and impl = "''0xe0e0e0e0e0e0e0e0e0e0e0e0e0e0e0e0e0e0e0e0''"
               and evsP = "snd (deployProxy example_env example_impl (Some (ArgsArray []))
                         (Some ?o) [])"
               and c = "\<lparr>inst_address = ''0xc0c0c0c0c0c0c0c0c0c0c0c0c0c0c0c0c0c0c0c0'',
                  inst_interface = ''Box'', inst_signer = ''deployer'',
                  inst_deployTransaction = \<lparr>hash = ''0xtx3''\<rparr>\<rparr>"]
      n m res k example_uups_run
    by simp
  show ?thesis
    using a res [unfolded k] b spec res2 [unfolded j i evs] n m l i by (intro conjI)
qed

text \<open>
  C7. Where the kind is transparent and the switch yields a proxy factory, the admin's
  address was obtained from \<^verbatim>\<open>fetchOrDeployAdmin\<close> (one event, nothing else), and the
  creation arguments are the implementation, that admin and the initializer data, of
  types address, address, bytes. Where the kind is uups, the switch leaves no event, and
  the creation arguments are the implementation and the initializer data, of types
  address, bytes. In a whole call whose kind resolved to uups no admin is fetched or
  deployed, and in one that succeeds with the kind transparent, exactly once.
\<close>

theorem proxyFactoryArgs_by_kind:
  "(proxyFactoryArgs env ImplFactory Transparent impl data evs
      = (Inr (ProxyFactory, proxyArgs, proxyArgTypes), evs')
    \<longrightarrow> (\<exists>AdminFactory adminAddress.
           getProxyAdminFactory env (signer ImplFactory) = Inr AdminFactory
           \<and> fetchOrDeployAdmin env evs AdminFactory = Inr adminAddress
           \<and> evs' = evs @ [FetchOrDeployAdmin AdminFactory adminAddress]
           \<and> proxyArgs = [VString impl, VString adminAddress, VString data]
           \<and> proxyArgTypes = [''address'', ''address'', ''bytes'']))
   \<and> (proxyFactoryArgs env ImplFactory Uups impl data evs = (r, evs')
    \<longrightarrow> evs' = evs
        \<and> (r = Inr (ProxyFactory, proxyArgs, proxyArgTypes)
            \<longrightarrow> proxyArgs = [VString impl, VString data]
                \<and> proxyArgTypes = [''address'', ''bytes'']))
   \<and> (normalizeArgs a b = (args, opts) \<and> manifest_forNetwork env evs = Inr ()
      \<and> resolveImpl env ImplFactory opts (evs @ [ManifestForNetwork]) = (Inr (impl, Uups), evsI)
      \<and> deployProxy env ImplFactory a b evs = (r', evsP)
    \<longrightarrow> filter isFetchOrDeployAdmin (drop (length evs) evsP) = [])
   \<and> (normalizeArgs a b = (args, opts) \<and> manifest_forNetwork env evs = Inr ()
      \<and> resolveImpl env ImplFactory opts (evs @ [ManifestForNetwork])
           = (Inr (impl, Transparent), evsI)
      \<and> deployProxy env ImplFactory a b evs = (Inr c, evsP)
    \<longrightarrow> (\<exists>AdminFactory adminAddress.
           filter isFetchOrDeployAdmin (drop (length evs) evsP)
             = [FetchOrDeployAdmin AdminFactory adminAddress]))"
proof (intro conjI impI; (elim conjE)?)
  assume "proxyFactoryArgs env ImplFactory Transparent impl data evs
            = (Inr (ProxyFactory, proxyArgs, proxyArgTypes), evs')"
  then show "\<exists>AdminFactory adminAddress.
           getProxyAdminFactory env (signer ImplFactory) = Inr AdminFactory
           \<and> fetchOrDeployAdmin env evs AdminFactory = Inr adminAddress
           \<and> evs' = evs @ [FetchOrDeployAdmin AdminFactory adminAddress]
           \<and> proxyArgs = [VString impl, VString adminAddress, VString data]
           \<and> proxyArgTypes = [''address'', ''address'', ''bytes'']"
    by (auto simp: proxyFactoryArgs_def run_eqs)
next
  assume u: "proxyFactoryArgs env ImplFactory Uups impl data evs = (r, evs')"
  then show "evs' = evs"
    by (auto simp: proxyFactoryArgs_def run_eqs)
  assume "r = Inr (ProxyFactory, proxyArgs, proxyArgTypes)"
  with u show "proxyArgs = [VString impl, VString data]"
    and "proxyArgTypes = [''address'', ''bytes'']"
    by (auto simp: proxyFactoryArgs_def run_eqs)
next
  assume n: "normalizeArgs a b = (args, opts)" and m: "manifest_forNetwork env evs = Inr ()"
    and res: "resolveImpl env ImplFactory opts (evs @ [ManifestForNetwork]) = (Inr (impl, Uups), evsI)"
    and run: "deployProxy env ImplFactory a b evs = (r', evsP)"
  from resolveImpl_events [OF res] obtain new
    where new: "evsI = (evs @ [ManifestForNetwork]) @ new" "list_all implEvent new"
    by blast
  show "filter isFetchOrDeployAdmin (drop (length evs) evsP) = []"
    using run new unfolding deployProxy_def n
    by (auto simp: run_eqs m res event_classes
             dest!: adminWarning_events proxyFactoryArgs_events submitProxy_events)
next
  assume n: "normalizeArgs a b = (args, opts)" and m: "manifest_forNetwork env evs = Inr ()"
    and res: "resolveImpl env ImplFactory opts (evs @ [ManifestForNetwork])
                = (Inr (impl, Transparent), evsI)"
    and run: "deployProxy env ImplFactory a b evs = (Inr c, evsP)"
  from resolveImpl_events [OF res] obtain new
    where new: "evsI = (evs @ [ManifestForNetwork]) @ new" "list_all implEvent new"
    by blast
  show "\<exists>AdminFactory adminAddress.
           filter isFetchOrDeployAdmin (drop (length evs) evsP)
             = [FetchOrDeployAdmin AdminFactory adminAddress]"
    using run new unfolding deployProxy_def n
    by (auto simp: run_eqs m res event_classes proxyFactoryArgs_def adminWarning_def
             dest!: submitProxy_events)
qed

theorem proxyFactoryArgs_by_kind_witness:
  "proxyFactoryArgs example_env example_impl Transparent
      ''0xe0e0e0e0e0e0e0e0e0e0e0e0e0e0e0e0e0e0e0e0'' ''0x8129fc1c'' []
     = (Inr (\<lparr>bytecode = ''0x6081'', interface = ''TransparentUpgradeableProxy'',
               signer = ''deployer''\<rparr>,
             [VString ''0xe0e0e0e0e0e0e0e0e0e0e0e0e0e0e0e0e0e0e0e0'',
              VString ''0x2222222222222222222222222222222222222222'', VString ''0x8129fc1c''],
             [''address'', ''address'', ''bytes'']),
        [FetchOrDeployAdmin
           \<lparr>bytecode = ''0x6082'', interface = ''ProxyAdmin'', signer = ''deployer''\<rparr>
           ''0x2222222222222222222222222222222222222222''])
   \<and> proxyFactoryArgs example_env example_impl Uups
        ''0xe0e0e0e0e0e0e0e0e0e0e0e0e0e0e0e0e0e0e0e0'' ''0x8129fc1c'' []
     = (Inr (\<lparr>bytecode = ''0x6080'', interface = ''ERC1967Proxy'', signer = ''deployer''\<rparr>,
             [VString ''0xe0e0e0e0e0e0e0e0e0e0e0e0e0e0e0e0e0e0e0e0'', VString ''0x8129fc1c''],
             [''address'', ''bytes'']),
        [])
   \<and> resolveImpl example_env example_impl (example_opts None) ([] @ [ManifestForNetwork])
     = (Inr (''0xe0e0e0e0e0e0e0e0e0e0e0e0e0e0e0e0e0e0e0e0'', Uups),
        [ManifestForNetwork,
         FactoryDeploy example_factory ''0x00'' example_saltHex \<lparr>hash = ''0xtx1''\<rparr>,
         TxWait \<lparr>hash = ''0xtx1''\<rparr>])
   \<and> filter isFetchOrDeployAdmin
        (drop (length ([] :: event list))
           (snd (deployProxy example_env example_impl (Some (ArgsArray []))
                   (Some (example_opts None)) []))) = []
   \<and> resolveImpl example_env example_impl (example_plain_opts (Some Transparent))
        ([] @ [ManifestForNetwork])
     = (Inr (''0x1111111111111111111111111111111111111111'', Transparent),
        [ManifestForNetwork,
         DeployProxyImpl example_impl (example_plain_opts (Some Transparent))
           ''0x1111111111111111111111111111111111111111'' Transparent])
   \<and> filter isFetchOrDeployAdmin
        (drop (length ([] :: event list))
           (snd (deployProxy example_env example_impl
                   (Some (ArgsOptions (example_plain_opts (Some Transparent)))) None [])))
     = [FetchOrDeployAdmin
          \<lparr>bytecode = ''0x6082'', interface = ''ProxyAdmin'', signer = ''deployer''\<rparr>
          ''0x2222222222222222222222222222222222222222'']"
proof -
  let ?impl = "''0xe0e0e0e0e0e0e0e0e0e0e0e0e0e0e0e0e0e0e0e0''"
  let ?o = "example_opts None" and ?p = "example_plain_opts (Some Transparent)"
  note T = proxyFactoryArgs_by_kind
  have t: "proxyFactoryArgs example_env example_impl Transparent ?impl ''0x8129fc1c'' []
     = (Inr (\<lparr>bytecode = ''0x6081'', interface = ''TransparentUpgradeableProxy'',
               signer = ''deployer''\<rparr>,
             [VString ?impl, VString ''0x2222222222222222222222222222222222222222'',
              VString ''0x8129fc1c''],
             [''address'', ''address'', ''bytes'']),
        [FetchOrDeployAdmin
           \<lparr>bytecode = ''0x6082'', interface = ''ProxyAdmin'', signer = ''deployer''\<rparr>
           ''0x2222222222222222222222222222222222222222''])"
    by code_simp
  have u: "proxyFactoryArgs example_env example_impl Uups ?impl ''0x8129fc1c'' []
     = (Inr (\<lparr>bytecode = ''0x6080'', interface = ''ERC1967Proxy'', signer = ''deployer''\<rparr>,
             [VString ?impl, VString ''0x8129fc1c''], [''address'', ''bytes'']), [])"
    by code_simp
  have r1: "resolveImpl example_env example_impl ?o ([] @ [ManifestForNetwork])
     = (Inr (?impl, Uups),
        [ManifestForNetwork,
         FactoryDeploy example_factory ''0x00'' example_saltHex \<lparr>hash = ''0xtx1''\<rparr>,
         TxWait \<lparr>hash = ''0xtx1''\<rparr>])"
    using example_resolve_run [of None] by (simp add: orDefault_def)
  have r2: "resolveImpl example_env example_impl ?p ([] @ [ManifestForNetwork])
     = (Inr (''0x1111111111111111111111111111111111111111'', Transparent),
        [ManifestForNetwork,
         DeployProxyImpl example_impl ?p ''0x1111111111111111111111111111111111111111''
           Transparent])"
    using example_plain_resolve_run [of "Some Transparent"] by (simp add: orDefault_def)
  have f1: "filter isFetchOrDeployAdmin
        (drop (length ([] :: event list))
           (snd (deployProxy example_env example_impl (Some (ArgsArray [])) (Some ?o) []))) = []"
    using T [where env = example_env and ImplFactory = example_impl and impl = ?impl
               and evs = "[]" and a = "Some (ArgsArray [])" and b = "Some ?o" and args = "[]"
               and opts = ?o
               and r' = "fst (deployProxy example_env example_impl (Some (ArgsArray []))
                                (Some ?o) [])"
               and evsP = "snd (deployProxy example_env example_impl (Some (ArgsArray []))
                                (Some ?o) [])"]
      example_normalize(1) example_forNetwork r1
    by simp
  have f2: "filter isFetchOrDeployAdmin
        (drop (length ([] :: event list))
           (snd (deployProxy example_env example_impl (Some (ArgsOptions ?p)) None [])))
     = [FetchOrDeployAdmin
          \<lparr>bytecode = ''0x6082'', interface = ''ProxyAdmin'', signer = ''deployer''\<rparr>
          ''0x2222222222222222222222222222222222222222'']"
    by (simp add: example_transparent_run)
  show ?thesis
    using t u r1 f1 r2 f2 by (intro conjI)
qed

text \<open>
  C10. On the deterministic path, where the ABI coder encodes the empty argument list as
  no bytes (ethers: \<^verbatim>\<open>0x\<close>), the implementation is submitted to the factory with init
  code equal to \<^verbatim>\<open>ImplFactory.bytecode\<close>, whatever \<^verbatim>\<open>args\<close> is: the resolution of the
  implementation leaves nothing, or that submission, or that submission and the wait for
  it. The argument list reaches the call through the initializer data alone: two
  argument lists with the same initializer data give the same call.
\<close>

theorem deterministic_implementation_initCode:
  assumes "abi_encode env [] [] = Inr []"
    and "deployFactory opts = Some factory" and "deployFactorySalt opts = Some salt"
  shows "(resolveImpl env ImplFactory opts evs = (r, evs')
          \<longrightarrow> evs' = evs
              \<or> (\<exists>t. evs' = evs @ [FactoryDeploy factory (bytecode ImplFactory)
                                      (saltToHex env salt) t]
                    \<or> evs' = evs @ [FactoryDeploy factory (bytecode ImplFactory)
                                      (saltToHex env salt) t, TxWait t]))
         \<and> (getInitializerData env (interface ImplFactory) args (initializer opts)
               = getInitializerData env (interface ImplFactory) args' (initializer opts)
             \<longrightarrow> deployProxy env ImplFactory (Some (ArgsArray args)) (Some opts) evs
                 = deployProxy env ImplFactory (Some (ArgsArray args')) (Some opts) evs)"
proof (intro conjI impI)
  have code: "buildBytecode env [] [] (bytecode ImplFactory) = Inr (bytecode ImplFactory)"
    using assms(1) by (simp add: buildBytecode_def encodeParams_def hexlify_def hexDigits_def)
  assume "resolveImpl env ImplFactory opts evs = (r, evs')"
  then show "evs' = evs
              \<or> (\<exists>t. evs' = evs @ [FactoryDeploy factory (bytecode ImplFactory)
                                      (saltToHex env salt) t]
                    \<or> evs' = evs @ [FactoryDeploy factory (bytecode ImplFactory)
                                      (saltToHex env salt) t, TxWait t])"
    by (auto simp: resolveImpl_def assms(2,3) run_eqs Let_def deployContract_def code orDefault_def)
next
  assume "getInitializerData env (interface ImplFactory) args (initializer opts)
               = getInitializerData env (interface ImplFactory) args' (initializer opts)"
  then show "deployProxy env ImplFactory (Some (ArgsArray args)) (Some opts) evs
                 = deployProxy env ImplFactory (Some (ArgsArray args')) (Some opts) evs"
    by (simp add: deployProxy_def normalizeArgs_def orDefault_def)
qed

theorem deterministic_implementation_initCode_witness:
  "abi_encode example_env [] [] = Inr []
   \<and> deployFactory (example_opts None) = Some example_factory
   \<and> deployFactorySalt (example_opts None) = Some (SaltString ''test'')
   \<and> resolveImpl example_env example_impl (example_opts None) [ManifestForNetwork]
       = (Inr (''0xe0e0e0e0e0e0e0e0e0e0e0e0e0e0e0e0e0e0e0e0'', Uups),
          [ManifestForNetwork] @
          [FactoryDeploy example_factory (bytecode example_impl)
             (saltToHex example_env (SaltString ''test'')) \<lparr>hash = ''0xtx1''\<rparr>,
           TxWait \<lparr>hash = ''0xtx1''\<rparr>])
   \<and> getInitializerData example_env (interface example_impl) [VNumber 42]
         (initializer (example_opts None))
       = getInitializerData example_env (interface example_impl) []
           (initializer (example_opts None))
   \<and> deployProxy example_env example_impl (Some (ArgsArray [VNumber 42]))
         (Some (example_opts None)) []
       = deployProxy example_env example_impl (Some (ArgsArray [])) (Some (example_opts None)) []"
proof -
  let ?o = "example_opts None"
  have a: "abi_encode example_env [] [] = Inr []"
    by code_simp
  have b: "deployFactory ?o = Some example_factory"
    "deployFactorySalt ?o = Some (SaltString ''test'')"
    by (simp_all add: example_opts_def)
  have salt: "saltToHex example_env (SaltString ''test'') = example_saltHex"
    by code_simp
  have code: "bytecode example_impl = ''0x00''"
    by (simp add: example_impl_def)
  have r: "resolveImpl example_env example_impl ?o [ManifestForNetwork]
       = (Inr (''0xe0e0e0e0e0e0e0e0e0e0e0e0e0e0e0e0e0e0e0e0'', Uups),
          [ManifestForNetwork] @
          [FactoryDeploy example_factory (bytecode example_impl)
             (saltToHex example_env (SaltString ''test'')) \<lparr>hash = ''0xtx1''\<rparr>,
           TxWait \<lparr>hash = ''0xtx1''\<rparr>])"
    using example_resolve_run [of None] by (simp add: orDefault_def salt code)
  have g: "getInitializerData example_env (interface example_impl) [VNumber 42] (initializer ?o)
       = getInitializerData example_env (interface example_impl) [] (initializer ?o)"
    by (simp add: example_env_def)
  from deterministic_implementation_initCode
         [OF a b, where ImplFactory = example_impl and args = "[VNumber 42]" and args' = "[]"
            and evs = "[]"] g
  have d: "deployProxy example_env example_impl (Some (ArgsArray [VNumber 42])) (Some ?o) []
       = deployProxy example_env example_impl (Some (ArgsArray [])) (Some ?o) []"
    by blast
  show ?thesis
    using a b r g d by (intro conjI)
qed

text \<open>
  C5. A call whose kind resolved to uups, against a manifest whose admin is set, logs the
  warning about the proxy admin and goes on: where the steps that have nothing to do with
  the admin succeed (the proxy's factory, the proxy's creation, the append), the call
  returns the contract at the proxy's address, and the warning is the one warning of the
  call.
\<close>

theorem deployProxy_uups_admin_warning:
  assumes "normalizeArgs a b = (args, opts)"
    and "manifest_forNetwork env evs = Inr ()"
    and "resolveImpl env ImplFactory opts (evs @ [ManifestForNetwork]) = (Inr (impl, Uups), evsI)"
    and "getInitializerData env (interface ImplFactory) args (initializer opts) = Inr data"
    and "manifest_getAdmin env evsI = Inr (Some admin)"
    and "getProxyFactory env (signer ImplFactory) = Inr ProxyFactory"
    and "submitProxy env opts Uups ProxyFactory [VString impl, VString data]
           [''address'', ''bytes''] (evsI @ [adminWarningLogged]) = (Inr p, evsP)"
    and "manifest_addProxy env evsP p = Inr ()"
  shows "deployProxy env ImplFactory a b evs = (Inr (attach ImplFactory p), evsP @ [AddProxy p])
         \<and> filter isLogWarning (drop (length evs) (evsP @ [AddProxy p])) = [adminWarningLogged]"
proof
  show run: "deployProxy env ImplFactory a b evs
               = (Inr (attach ImplFactory p), evsP @ [AddProxy p])"
    unfolding deployProxy_def assms(1)
    using assms(7)
    by (simp add: run_defs assms(2-6,8) adminWarning_def proxyFactoryArgs_def
        adminWarningLogged_def)
  from resolveImpl_events [OF assms(3)] obtain new
    where new: "evsI = (evs @ [ManifestForNetwork]) @ new" "list_all implEvent new"
    by blast
  from submitProxy_events [OF assms(7)] obtain sub
    where sub: "evsP = (evsI @ [adminWarningLogged]) @ [sub]" "submits sub p"
    by auto
  show "filter isLogWarning (drop (length evs) (evsP @ [AddProxy p])) = [adminWarningLogged]"
    using new sub by (simp add: event_classes adminWarningLogged_def)
qed

theorem deployProxy_uups_admin_warning_witness:
  "normalizeArgs (Some (ArgsOptions (example_plain_opts (Some Uups)))) None
     = ([], example_plain_opts (Some Uups))
   \<and> manifest_forNetwork admin_env [] = Inr ()
   \<and> resolveImpl admin_env example_impl (example_plain_opts (Some Uups))
        ([] @ [ManifestForNetwork])
     = (Inr (''0x1111111111111111111111111111111111111111'', Uups),
        [ManifestForNetwork,
         DeployProxyImpl example_impl (example_plain_opts (Some Uups))
           ''0x1111111111111111111111111111111111111111'' Uups])
   \<and> getInitializerData admin_env (interface example_impl) []
        (initializer (example_plain_opts (Some Uups))) = Inr ''0x8129fc1c''
   \<and> manifest_getAdmin admin_env
        [ManifestForNetwork,
         DeployProxyImpl example_impl (example_plain_opts (Some Uups))
           ''0x1111111111111111111111111111111111111111'' Uups] = Inr (Some example_admin)
   \<and> getProxyFactory admin_env (signer example_impl)
     = Inr \<lparr>bytecode = ''0x6080'', interface = ''ERC1967Proxy'', signer = ''deployer''\<rparr>
   \<and> manifest_addProxy admin_env
        [ManifestForNetwork,
         DeployProxyImpl example_impl (example_plain_opts (Some Uups))
           ''0x1111111111111111111111111111111111111111'' Uups,
         adminWarningLogged,
         Deploy \<lparr>bytecode = ''0x6080'', interface = ''ERC1967Proxy'', signer = ''deployer''\<rparr>
           [VString ''0x1111111111111111111111111111111111111111'', VString ''0x8129fc1c'']
           \<lparr>address = ''0x3333333333333333333333333333333333333333'', txHash = ''0xtx3'',
              deployTransaction = \<lparr>hash = ''0xtx3''\<rparr>\<rparr>]
        \<lparr>address = ''0x3333333333333333333333333333333333333333'', txHash = ''0xtx3'',
           deployTransaction = \<lparr>hash = ''0xtx3''\<rparr>, proxyKind = Uups\<rparr> = Inr ()
   \<and> fst (deployProxy admin_env example_impl
             (Some (ArgsOptions (example_plain_opts (Some Uups)))) None [])
     = Inr \<lparr>inst_address = ''0x3333333333333333333333333333333333333333'',
             inst_interface = ''Box'', inst_signer = ''deployer'',
             inst_deployTransaction = \<lparr>hash = ''0xtx3''\<rparr>\<rparr>
   \<and> filter isLogWarning
        (drop (length ([] :: event list))
           (snd (deployProxy admin_env example_impl
                   (Some (ArgsOptions (example_plain_opts (Some Uups)))) None [])))
     = [adminWarningLogged]"
proof -
  let ?o = "example_plain_opts (Some Uups)"
  let ?i = "''0x1111111111111111111111111111111111111111''"
  let ?PF = "\<lparr>bytecode = ''0x6080'', interface = ''ERC1967Proxy'', signer = ''deployer''\<rparr>"
  let ?d = "\<lparr>address = ''0x3333333333333333333333333333333333333333'', txHash = ''0xtx3'',
              deployTransaction = \<lparr>hash = ''0xtx3''\<rparr>\<rparr>"
  let ?p = "\<lparr>address = ''0x3333333333333333333333333333333333333333'', txHash = ''0xtx3'',
           deployTransaction = \<lparr>hash = ''0xtx3''\<rparr>, proxyKind = Uups\<rparr>"
  let ?evsI = "[ManifestForNetwork, DeployProxyImpl example_impl ?o ?i Uups]"
  let ?evsP = "[ManifestForNetwork, DeployProxyImpl example_impl ?o ?i Uups, adminWarningLogged,
                Deploy ?PF [VString ?i, VString ''0x8129fc1c''] ?d]"
  have h1: "normalizeArgs (Some (ArgsOptions ?o)) None = ([], ?o)"
    by (rule example_normalize)
  have h2: "manifest_forNetwork admin_env [] = Inr ()"
    by (simp add: admin_env_def example_env_def)
  have h3: "resolveImpl admin_env example_impl ?o ([] @ [ManifestForNetwork])
              = (Inr (?i, Uups), ?evsI)"
    by (simp add: resolveImpl_def run_defs example_plain_opts_def admin_env_def example_env_def
        orDefault_def)
  have h4: "getInitializerData admin_env (interface example_impl) [] (initializer ?o)
              = Inr ''0x8129fc1c''"
    by (simp add: admin_env_def example_env_def)
  have h5: "manifest_getAdmin admin_env ?evsI = Inr (Some example_admin)"
    by (simp add: admin_env_def)
  have h6: "getProxyFactory admin_env (signer example_impl) = Inr ?PF"
    by (simp add: admin_env_def example_env_def example_impl_def)
  have h7: "submitProxy admin_env ?o Uups ?PF [VString ?i, VString ''0x8129fc1c'']
              [''address'', ''bytes''] (?evsI @ [adminWarningLogged]) = (Inr ?p, ?evsP)"
    by code_simp
  have h8: "manifest_addProxy admin_env ?evsP ?p = Inr ()"
    by (simp add: admin_env_def example_env_def)
  from deployProxy_uups_admin_warning [OF h1 h2 h3 h4 h5 h6 h7 h8]
  have c: "fst (deployProxy admin_env example_impl (Some (ArgsOptions ?o)) None [])
             = Inr (attach example_impl ?p)"
    and w: "filter isLogWarning
        (drop (length ([] :: event list))
           (snd (deployProxy admin_env example_impl (Some (ArgsOptions ?o)) None [])))
      = [adminWarningLogged]"
    by simp_all
  have at: "attach example_impl ?p = \<lparr>inst_address = ''0x3333333333333333333333333333333333333333'',
             inst_interface = ''Box'', inst_signer = ''deployer'',
             inst_deployTransaction = \<lparr>hash = ''0xtx3''\<rparr>\<rparr>"
    by (simp add: attach_def example_impl_def)
  show ?thesis
    using h1 h2 h3 h4 h5 h6 h8 c [unfolded at] w by (intro conjI)
qed

end
